theory Spec2Isabelle
  imports Main "HOL-Library.Char_ord" "HOL-Library.List_Lexorder" "HOL-Library.Word"
begin

section \<open>sysgen: the type descriptor compiler of syzkaller\<close>

text \<open>
  This theory embeds \<^verbatim>\<open>sysgen/sysgen.go\<close>: the compilation of an architecture-independent
  description of system calls into typed descriptors for one architecture. The Go program
  prints Go source text; the embedding keeps the structure of that text (one constructor for
  each composite literal the program prints) and leaves the concrete syntax out. A call of
  \<^verbatim>\<open>failf\<close> prints a message and exits the process, so every \<^verbatim>\<open>failf\<close> is an
  error value that ends the compilation.
\<close>

subsection \<open>The schema consumed from the parser\<close>

text \<open>
  The types \<^verbatim>\<open>Description\<close>, \<^verbatim>\<open>Syscall\<close>, \<^verbatim>\<open>Struct\<close> and \<^verbatim>\<open>Resource\<close> belong to the
  package \<^verbatim>\<open>sysparser\<close>; their fields are the ones \<^verbatim>\<open>sysgen.go\<close> reads. The Go maps that
  the program iterates over (\<^verbatim>\<open>Structs\<close>, \<^verbatim>\<open>Resources\<close>) are association lists, looked up
  with \<open>map_of\<close>; the maps that are only looked up are partial functions.
\<close>

record Named =
  Name :: string

record Syscall = Named +
  CallName :: string
  Args :: "string list list"
  Ret :: "string list"

record Struct = Named +
  Flds :: "string list list"
  IsUnion :: bool
  Packed :: bool
  Varlen :: bool
  Align :: nat

record Resource = Named +
  Base :: string
  Values :: "string list"

record Description =
  Syscalls :: "Syscall list"
  Structs :: "(string \<times> Struct) list"
  Resources :: "(string \<times> Resource) list"
  Flags :: "string \<rightharpoonup> string list"
  StrFlags :: "string \<rightharpoonup> string list"
  Unnamed :: "string \<rightharpoonup> string list"

text \<open>The constant table of one architecture: \<^verbatim>\<open>map[string]uint64\<close>.\<close>

type_synonym constTable = "string \<rightharpoonup> 64 word"

subsection \<open>Errors\<close>

text \<open>
  One constructor for each \<^verbatim>\<open>failf\<close> of the compiler, with the values its message
  prints, and \<open>RuntimePanic\<close> for an index or a slice bound out of range, where the Go
  runtime stops the program.
\<close>

datatype error =
    WrongNumberOfArguments string string nat
  | UnknownStringFlags string
  | FailedToParseStringLength string
  | StringValueExceeds string nat string
  | UnknownFlag string
  | CouldntParseInt64 string
  | ValuesPerProcTooSmall int
  | ValuesStartOverflow int nat
  | NotEnoughValues int int nat
  | UnknownUnnamedType string
  | StructHasArgs string
  | ResourceHasArgs string
  | UnknownArgType string string
  | CantBeSyscallArgument string string
  | BadDirection string
  | UnknownType string
  | BadRange string
  | UnknownParentResource string string
  | RuntimePanic

subsection \<open>The compiled descriptors\<close>

datatype Dir = DirIn | DirOut | DirInOut

record TypeCommon =
  TypeName :: string
  ArgDir :: Dir
  IsOptional :: bool

text \<open>
  \<^verbatim>\<open>structKey\<close>: the fields \<^verbatim>\<open>name\<close>, \<^verbatim>\<open>field\<close> and \<^verbatim>\<open>dir\<close> carry the prefix \<open>key_\<close>
  here, since the compiler also uses these three names for variables.
\<close>

record structKey =
  key_name :: string
  key_field :: string
  key_dir :: string

datatype IntKind = IntPlain | IntRange string string | IntFileoff | IntSignalno

datatype BufferKind =
    BufferBlobRand
  | BufferBlobRange string string
  | BufferString string "string list"
  | BufferAlgType
  | BufferAlgName
  | BufferFilename

datatype ArrayKind = ArrayRandLen | ArrayRangeLen string string

datatype Type =
    IntType TypeCommon nat bool IntKind
  | PtrType TypeCommon Type
  | BufferType TypeCommon BufferKind
  | VmaType TypeCommon string string
  | LenType TypeCommon string nat bool nat
  | FlagsType TypeCommon nat bool "string list"
  | ConstType TypeCommon nat bool string
  | ProcType TypeCommon nat bool int int
  | ArrayType TypeCommon Type ArrayKind
  | StructsAt structKey
  | ResourceType TypeCommon string


subsection \<open>Strings and numbers\<close>

definition ptrSize :: nat where
  "ptrSize = 8"

text \<open>\<^verbatim>\<open>strings.HasPrefix\<close> and \<^verbatim>\<open>strings.HasSuffix\<close>.\<close>

definition hasPrefix :: "string \<Rightarrow> string \<Rightarrow> bool" where
  "hasPrefix s p = (take (length p) s = p)"

definition hasSuffix :: "string \<Rightarrow> string \<Rightarrow> bool" where
  "hasSuffix s p = (length p \<le> length s \<and> drop (length s - length p) s = p)"

text \<open>\<^verbatim>\<open>strings.Split(buffer, ":")\<close>: one part more than there are colons.\<close>

fun splitColon :: "string \<Rightarrow> string list" where
  "splitColon [] = [[]]"
| "splitColon (c # cs) =
     (if c = CHR '':'' then [] # splitColon cs
      else (case splitColon cs of [] \<Rightarrow> [[c]] | p # ps \<Rightarrow> (c # p) # ps))"

definition isDigit :: "char \<Rightarrow> bool" where
  "isDigit c = (CHR ''0'' \<le> c \<and> c \<le> CHR ''9'')"

definition digitVal :: "char \<Rightarrow> nat" where
  "digitVal c = of_char c - of_char CHR ''0''"

definition digitsVal :: "string \<Rightarrow> nat" where
  "digitsVal s = foldl (\<lambda>acc c. 10 * acc + digitVal c) 0 s"

text \<open>
  \<^verbatim>\<open>strconv.ParseUint(s, 10, 64)\<close>: decimal digits only, at least one, and a value below
  \<open>2 ^ 64\<close>; \<open>None\<close> is the error return.
\<close>

definition parseUint :: "string \<Rightarrow> nat option" where
  "parseUint s =
     (if s = [] \<or> \<not> list_all isDigit s then None
      else if digitsVal s < 2 ^ 64 then Some (digitsVal s) else None)"

text \<open>
  \<^verbatim>\<open>strconv.ParseInt(s, 10, bits)\<close>: an optional sign, then decimal digits, and a value
  that fits \<open>bits\<close> bits in two's complement.
\<close>

definition parseInt :: "nat \<Rightarrow> string \<Rightarrow> int option" where
  "parseInt bits s =
     (if s = [] then None
      else let neg = (hd s = CHR ''-'');
               ds = (if hd s = CHR ''+'' \<or> hd s = CHR ''-'' then tl s else s)
           in if ds = [] \<or> \<not> list_all isDigit ds then None
              else if neg then
                (if digitsVal ds \<le> 2 ^ (bits - 1) then Some (- int (digitsVal ds)) else None)
              else
                (if digitsVal ds < 2 ^ (bits - 1) then Some (int (digitsVal ds)) else None))"

text \<open>\<^verbatim>\<open>fmt.Sprint\<close> of an unsigned number: its decimal digits.\<close>

fun showNat :: "nat \<Rightarrow> string" where
  "showNat n =
     (if n < 10 then [''0123456789'' ! n]
      else showNat (n div 10) @ [''0123456789'' ! (n mod 10)])"

declare showNat.simps [simp del]

text \<open>
  Two's complement on 64 bits: the value of an \<^verbatim>\<open>int64\<close> expression whose exact value
  is \<open>x\<close>.
\<close>

definition int64 :: "int \<Rightarrow> int" where
  "int64 x = (x + 2 ^ 63) mod 2 ^ 64 - 2 ^ 63"

text \<open>
  \<^verbatim>\<open>isIdentifier\<close>: every character is a letter or an underscore, or a digit that is not
  the first character. The loop runs over the runes of the string with their byte offsets;
  a rune outside ASCII fails the test as each of its bytes does.
\<close>

definition isIdentChar :: "nat \<times> char \<Rightarrow> bool" where
  "isIdentChar ic =
     (case ic of (i, c) \<Rightarrow>
        c = CHR ''_'' \<or> (CHR ''a'' \<le> c \<and> c \<le> CHR ''z'') \<or> (CHR ''A'' \<le> c \<and> c \<le> CHR ''Z'')
        \<or> (i > 0 \<and> CHR ''0'' \<le> c \<and> c \<le> CHR ''9''))"

definition isIdentifier :: "string \<Rightarrow> bool" where
  "isIdentifier s = list_all isIdentChar (enumerate 0 s)"

subsection \<open>Helpers of the compiler\<close>

definition bindE :: "'e + 'a \<Rightarrow> ('a \<Rightarrow> 'e + 'b) \<Rightarrow> 'e + 'b" where
  "bindE m f = (case m of Inl e \<Rightarrow> Inl e | Inr x \<Rightarrow> f x)"

text \<open>
  \<^verbatim>\<open>skipCurrentSyscall\<close> is a global string; the functions that may write it take its
  value and return the new one.
\<close>

definition skipSyscall :: "string \<Rightarrow> string \<Rightarrow> string" where
  "skipSyscall skipCurrentSyscall why =
     (if skipCurrentSyscall \<noteq> [] then why else skipCurrentSyscall)"

definition fmtDir :: "string \<Rightarrow> error + Dir" where
  "fmtDir s =
     (if s = ''in'' then Inr DirIn
      else if s = ''out'' then Inr DirOut
      else if s = ''inout'' then Inr DirInOut
      else Inl (BadDirection s))"

text \<open>
  The closure \<^verbatim>\<open>common\<close> of \<^verbatim>\<open>generateArg\<close>, with the variables it reads as
  arguments. The name it prints is the quoted argument name, that is, the Go string
  literal of \<open>name\<close>.
\<close>

definition common :: "string \<Rightarrow> string \<Rightarrow> bool \<Rightarrow> error + TypeCommon" where
  "common name dir opt =
     bindE (fmtDir dir) (\<lambda>d. Inr \<lparr>TypeName = name, ArgDir = d, IsOptional = opt\<rparr>)"

definition decodeIntType :: "string \<Rightarrow> error + nat \<times> bool" where
  "decodeIntType typ0 =
     (let bigEndian = hasSuffix typ0 ''be'';
          typ = (if bigEndian then take (length typ0 - 2) typ0 else typ0)
      in if typ \<notin> set [''int8'', ''int16'', ''int32'', ''int64'', ''intptr'']
         then Inl (UnknownType typ)
         else let sz = (if typ \<noteq> ''intptr'' then (case parseInt 64 (drop 3 typ) of None \<Rightarrow> 0 | Some v \<Rightarrow> v)
                        else int (ptrSize * 8))
              in Inr (nat (sz div 8), bigEndian))"

definition decodeByteSizeType :: "string \<Rightarrow> error + nat" where
  "decodeByteSizeType typ =
     (if typ \<notin> set [''bytesize'', ''bytesize2'', ''bytesize4'', ''bytesize8'']
      then Inl (UnknownType typ)
      else let sz = (if typ \<noteq> ''bytesize'' then (case parseInt 8 (drop 8 typ) of None \<Rightarrow> 0 | Some v \<Rightarrow> v) else 1)
           in Inr (nat sz))"

definition lookupConst :: "constTable \<Rightarrow> string \<Rightarrow> string" where
  "lookupConst consts name' =
     (case consts name' of Some v \<Rightarrow> showNat (unat v) | None \<Rightarrow> name')"

definition parseRange :: "string \<Rightarrow> constTable \<Rightarrow> error + string \<times> string" where
  "parseRange buffer consts =
     (let parts = splitColon buffer
      in if length parts = 1 then Inr (lookupConst consts buffer, lookupConst consts buffer)
         else if length parts = 2
           then Inr (lookupConst consts (parts ! 0), lookupConst consts (parts ! 1))
         else Inl (BadRange buffer))"

text \<open>
  The first loop of \<^verbatim>\<open>generateArg\<close> looks for the marker \<^verbatim>\<open>opt\<close> and removes its first
  occurrence from the parameters. \<open>removeOpt\<close> gives the flag and the parameters the rest
  of the function sees.
\<close>

fun removeOpt :: "string list \<Rightarrow> bool \<times> string list" where
  "removeOpt [] = (False, [])"
| "removeOpt (v # a) =
     (if v = ''opt'' then (True, a)
      else (fst (removeOpt a), v # snd (removeOpt a)))"

text \<open>
  The removal is done in place, by \<^verbatim>\<open>copy(a[i:], a[i+1:])\<close> on the slice the caller
  passed: the elements after the marker move one place down and the last place keeps its
  old value. \<open>optBacking\<close> gives what the caller's slice holds afterwards (its length does
  not change); it is the list itself when the marker is absent or last.
\<close>

fun optBacking :: "string list \<Rightarrow> string list" where
  "optBacking [] = []"
| "optBacking (v # a) =
     (if v = ''opt'' then (if a = [] then [v] else a @ [last a])
      else v # optBacking a)"


subsection \<open>The cases of \<^verbatim>\<open>generateArg\<close> that do not recurse\<close>

text \<open>
  Each case of the \<^verbatim>\<open>switch typ\<close> is a definition of its own. It takes the variables
  the case reads (\<open>opt\<close> and \<open>a\<close> as they are after the removal of \<^verbatim>\<open>opt\<close>) and gives
  the value of \<^verbatim>\<open>canBeArg\<close> with the node that the case prints, or the error of its first
  failing \<^verbatim>\<open>failf\<close>. The checks are in the order in which the program runs them; the
  arguments of a \<^verbatim>\<open>Fprintf\<close> are evaluated from left to right.
\<close>

definition arg_fileoff ::
  "string \<Rightarrow> string \<Rightarrow> bool \<Rightarrow> string list \<Rightarrow> bool \<Rightarrow> error + bool \<times> Type" where
  "arg_fileoff name dir opt a isField =
     bindE (if isField
            then (if length a \<noteq> 1 then Inl (WrongNumberOfArguments ''fileoff'' name (length a))
                  else decodeIntType (a ! 0))
            else (if length a \<noteq> 0 then Inl (WrongNumberOfArguments ''fileoff'' name (length a))
                  else Inr (ptrSize, False)))
       (\<lambda>(size', bigEndian).
          bindE (common name dir opt) (\<lambda>c. Inr (True, IntType c size' bigEndian IntFileoff)))"

definition arg_buffer ::
  "string \<Rightarrow> string \<Rightarrow> bool \<Rightarrow> string list \<Rightarrow> error + bool \<times> Type" where
  "arg_buffer name dir opt a =
     (if length a \<noteq> 1 then Inl (WrongNumberOfArguments ''buffer'' name (length a))
      else bindE (common name dir opt) (\<lambda>ptrCommonHdr.
           bindE (common name (a ! 0) False) (\<lambda>c.
             Inr (True, PtrType ptrCommonHdr (BufferType c BufferBlobRand)))))"

text \<open>
  The values of a \<^verbatim>\<open>string\<close>: the literal between its first and last character when the
  parameter starts with a double quote, the named set of \<^verbatim>\<open>desc.StrFlags\<close> otherwise.
  Reading the first character of an empty parameter, or slicing a parameter of one
  character, is out of range.
\<close>

definition stringVals :: "string list \<Rightarrow> Description \<Rightarrow> error + string list \<times> string" where
  "stringVals a desc =
     (if length a \<ge> 1 then
        (if a ! 0 = [] then Inl RuntimePanic
         else if hd (a ! 0) = CHR 0x22 then
           (if length (a ! 0) < 2 then Inl RuntimePanic
            else Inr ([butlast (tl (a ! 0))], []))
         else (case StrFlags desc (a ! 0) of
                 None \<Rightarrow> Inl (UnknownStringFlags (a ! 0))
               | Some vals1 \<Rightarrow> Inr (vals1, a ! 0)))
      else Inr ([], []))"

text \<open>The second loop over the values: the check against the size, then the padding.\<close>

fun padVals :: "string \<Rightarrow> nat \<Rightarrow> string list \<Rightarrow> error + string list" where
  "padVals name size' [] = Inr []"
| "padVals name size' (s # vals) =
     (if length s > size' then Inl (StringValueExceeds s size' name)
      else bindE (padVals name size' vals)
             (\<lambda>vals'. Inr ((s @ replicate (size' - length s) (CHR 0x00)) # vals')))"

text \<open>The fixed length of a \<^verbatim>\<open>string\<close>: a constant of the table, or a decimal number.\<close>

definition stringSize :: "string \<Rightarrow> constTable \<Rightarrow> string \<Rightarrow> error + nat" where
  "stringSize name consts tok =
     (case consts tok of
        Some v \<Rightarrow> Inr (unat v)
      | None \<Rightarrow> (case parseUint tok of
                   None \<Rightarrow> Inl (FailedToParseStringLength name)
                 | Some v \<Rightarrow> Inr v))"

definition arg_string ::
  "string \<Rightarrow> string \<Rightarrow> bool \<Rightarrow> string list \<Rightarrow> Description \<Rightarrow> constTable
     \<Rightarrow> error + bool \<times> Type" where
  "arg_string name dir opt a desc consts =
     (if length a \<noteq> 0 \<and> length a \<noteq> 1 \<and> length a \<noteq> 2
      then Inl (WrongNumberOfArguments ''string'' name (length a))
      else bindE (stringVals a desc) (\<lambda>(vals0, subkind).
        let vals = map (\<lambda>s. s @ [CHR 0x00]) vals0
        in bindE (if length a \<ge> 2 then
                    bindE (stringSize name consts (a ! 1)) (\<lambda>size'. padVals name size' vals)
                  else Inr vals)
             (\<lambda>vals'. bindE (common name dir opt) (\<lambda>c.
                Inr (False, BufferType c (BufferString subkind vals'))))))"

definition arg_salg_type ::
  "string \<Rightarrow> string \<Rightarrow> bool \<Rightarrow> string list \<Rightarrow> error + bool \<times> Type" where
  "arg_salg_type name dir opt a =
     (if length a \<noteq> 0 then Inl (WrongNumberOfArguments ''salg_type'' name (length a))
      else bindE (common name dir opt) (\<lambda>c. Inr (False, BufferType c BufferAlgType)))"

definition arg_salg_name ::
  "string \<Rightarrow> string \<Rightarrow> bool \<Rightarrow> string list \<Rightarrow> error + bool \<times> Type" where
  "arg_salg_name name dir opt a =
     (if length a \<noteq> 0 then Inl (WrongNumberOfArguments ''salg_name'' name (length a))
      else bindE (common name dir opt) (\<lambda>c. Inr (False, BufferType c BufferAlgName)))"

definition arg_vma ::
  "string \<Rightarrow> string \<Rightarrow> bool \<Rightarrow> string list \<Rightarrow> constTable \<Rightarrow> error + bool \<times> Type" where
  "arg_vma name dir opt a consts =
     bindE (if length a = 0 then Inr (''0'', ''0'')
            else if length a = 1 then parseRange (a ! 0) consts
            else Inl (WrongNumberOfArguments ''vma'' name (length a)))
       (\<lambda>(begin, end'). bindE (common name dir opt) (\<lambda>c. Inr (True, VmaType c begin end')))"

definition arg_len ::
  "string \<Rightarrow> string \<Rightarrow> string \<Rightarrow> bool \<Rightarrow> string list \<Rightarrow> bool \<Rightarrow> error + bool \<times> Type" where
  "arg_len typ name dir opt a isField =
     bindE (if isField
            then (if length a \<noteq> 2 then Inl (WrongNumberOfArguments typ name (length a))
                  else decodeIntType (a ! 1))
            else (if length a \<noteq> 1 then Inl (WrongNumberOfArguments typ name (length a))
                  else Inr (ptrSize, False)))
       (\<lambda>(size', bigEndian).
          bindE (if typ \<noteq> ''len'' then decodeByteSizeType typ else Inr 0) (\<lambda>byteSize.
          bindE (common name dir opt) (\<lambda>c.
            Inr (True, LenType c (a ! 0) size' bigEndian byteSize))))"

definition arg_flags ::
  "string \<Rightarrow> string \<Rightarrow> bool \<Rightarrow> string list \<Rightarrow> Description \<Rightarrow> bool \<Rightarrow> error + bool \<times> Type" where
  "arg_flags name dir opt a desc isField =
     bindE (if isField
            then (if length a \<noteq> 2 then Inl (WrongNumberOfArguments ''flags'' name (length a))
                  else decodeIntType (a ! 1))
            else (if length a \<noteq> 1 then Inl (WrongNumberOfArguments ''flags'' name (length a))
                  else Inr (ptrSize, False)))
       (\<lambda>(size', bigEndian).
          case Flags desc (a ! 0) of
            None \<Rightarrow> Inl (UnknownFlag (a ! 0))
          | Some vals \<Rightarrow>
              bindE (common name dir opt) (\<lambda>c.
                if length vals = 0 then Inr (True, IntType c size' bigEndian IntPlain)
                else Inr (True, FlagsType c size' bigEndian vals)))"

text \<open>
  The case \<^verbatim>\<open>const\<close> is the one that calls \<^verbatim>\<open>skipSyscall\<close>: it takes the value of
  \<^verbatim>\<open>skipCurrentSyscall\<close> and returns the new one beside the node.
\<close>

definition arg_const ::
  "string \<Rightarrow> string \<Rightarrow> bool \<Rightarrow> string list \<Rightarrow> constTable \<Rightarrow> bool \<Rightarrow> string
     \<Rightarrow> error + (bool \<times> Type) \<times> string" where
  "arg_const name dir opt a consts isField skipCurrentSyscall =
     bindE (if isField
            then (if length a \<noteq> 2 then Inl (WrongNumberOfArguments ''const'' name (length a))
                  else decodeIntType (a ! 1))
            else (if length a \<noteq> 1 then Inl (WrongNumberOfArguments ''const'' name (length a))
                  else Inr (ptrSize, False)))
       (\<lambda>(size', bigEndian).
          let (val, skip') =
                (case consts (a ! 0) of
                   Some v \<Rightarrow> (showNat (unat v), skipCurrentSyscall)
                 | None \<Rightarrow>
                     if isIdentifier (a ! 0)
                     then (''0'', skipSyscall skipCurrentSyscall (''missing const '' @ a ! 0))
                     else (a ! 0, skipCurrentSyscall))
          in bindE (common name dir opt) (\<lambda>c.
               Inr ((True, ConstType c size' bigEndian val), skip')))"

text \<open>
  The case \<^verbatim>\<open>proc\<close>. \<^verbatim>\<open>valuesStartInt\<close> and \<^verbatim>\<open>valuesPerProcInt\<close> are \<^verbatim>\<open>int64\<close>, and so
  are both sides of the two comparisons: the untyped constant \<^verbatim>\<open>1\<close> of
  \<^verbatim>\<open>1 << (size' * 8)\<close> takes the type of the other operand, and the shift, the product and
  the sum wrap around on 64 bits.
\<close>

definition maxPids :: int where
  "maxPids = 32"

definition arg_proc ::
  "string \<Rightarrow> string \<Rightarrow> bool \<Rightarrow> string list \<Rightarrow> bool \<Rightarrow> error + bool \<times> Type" where
  "arg_proc name dir opt a isField =
     bindE (if isField
            then (if length a \<noteq> 3 then Inl (WrongNumberOfArguments ''proc'' name (length a))
                  else bindE (decodeIntType (a ! 0)) (\<lambda>(size', bigEndian).
                         Inr (size', bigEndian, a ! 1, a ! 2)))
            else (if length a \<noteq> 2 then Inl (WrongNumberOfArguments ''proc'' name (length a))
                  else Inr (ptrSize, False, a ! 0, a ! 1)))
       (\<lambda>(size', bigEndian, valuesStart, valuesPerProc).
          case parseInt 64 valuesStart of
            None \<Rightarrow> Inl (CouldntParseInt64 valuesStart)
          | Some valuesStartInt \<Rightarrow>
          (case parseInt 64 valuesPerProc of
            None \<Rightarrow> Inl (CouldntParseInt64 valuesPerProc)
          | Some valuesPerProcInt \<Rightarrow>
            if valuesPerProcInt < 1 then Inl (ValuesPerProcTooSmall valuesPerProcInt)
            else if valuesStartInt \<ge> int64 (2 ^ (size' * 8))
              then Inl (ValuesStartOverflow valuesStartInt size')
            else if int64 (valuesStartInt + int64 (maxPids * valuesPerProcInt))
                      \<ge> int64 (2 ^ (size' * 8))
              then Inl (NotEnoughValues valuesStartInt valuesPerProcInt size')
            else bindE (common name dir opt) (\<lambda>c.
                   Inr (True, ProcType c size' bigEndian valuesStartInt valuesPerProcInt))))"

definition arg_int ::
  "string \<Rightarrow> string \<Rightarrow> string \<Rightarrow> bool \<Rightarrow> string list \<Rightarrow> constTable \<Rightarrow> error + bool \<times> Type" where
  "arg_int typ name dir opt a consts =
     bindE (decodeIntType typ) (\<lambda>(size', bigEndian).
       if length a = 0 then
         bindE (common name dir opt) (\<lambda>c. Inr (True, IntType c size' bigEndian IntPlain))
       else if length a = 1 then
         bindE (parseRange (a ! 0) consts) (\<lambda>(begin, end').
         bindE (common name dir opt) (\<lambda>c.
           Inr (True, IntType c size' bigEndian (IntRange begin end'))))
       else Inl (WrongNumberOfArguments typ name (length a)))"

definition arg_signalno ::
  "string \<Rightarrow> string \<Rightarrow> bool \<Rightarrow> string list \<Rightarrow> error + bool \<times> Type" where
  "arg_signalno name dir opt a =
     (if length a \<noteq> 0 then Inl (WrongNumberOfArguments ''signalno'' name (length a))
      else bindE (common name dir opt) (\<lambda>c. Inr (True, IntType c 4 False IntSignalno)))"

definition arg_filename ::
  "string \<Rightarrow> string \<Rightarrow> bool \<Rightarrow> string list \<Rightarrow> error + bool \<times> Type" where
  "arg_filename name dir opt a =
     (if length a \<noteq> 0 then Inl (WrongNumberOfArguments ''filename'' name (length a))
      else bindE (common name dir opt) (\<lambda>ptrCommonHdr.
           bindE (common name ''in'' False) (\<lambda>c.
             Inr (True, PtrType ptrCommonHdr (BufferType c BufferFilename)))))"


subsection \<open>\<^verbatim>\<open>generateArg\<close>\<close>

text \<open>
  The end of \<^verbatim>\<open>generateArg\<close>: a node whose case did not set \<^verbatim>\<open>canBeArg\<close> is refused
  when \<^verbatim>\<open>isArg\<close> holds. The result of a successful call is the node, the value of
  \<^verbatim>\<open>skipCurrentSyscall\<close> and the description (see below for what changes in it).
\<close>

definition finishArg ::
  "bool \<Rightarrow> string \<Rightarrow> string \<Rightarrow> string \<Rightarrow> Description \<Rightarrow> error + bool \<times> Type
     \<Rightarrow> error + Type \<times> string \<times> Description" where
  "finishArg isArg name typ skipCurrentSyscall desc r =
     bindE r (\<lambda>(canBeArg, t).
       if isArg \<and> \<not> canBeArg then Inl (CantBeSyscallArgument name typ)
       else Inr (t, skipCurrentSyscall, desc))"

text \<open>
  \<^verbatim>\<open>generateArg\<close> calls itself for the element of an \<^verbatim>\<open>array\<close>, for the pointee of a
  \<^verbatim>\<open>ptr\<close> (both through \<^verbatim>\<open>generateType\<close>, which passes no parameters, an empty name,
  \<^verbatim>\<open>isArg = false\<close> and \<^verbatim>\<open>isField = true\<close>) and for the expansion of an unnamed type.
  Nothing bounds the depth of these calls: an entry of \<^verbatim>\<open>desc.Unnamed\<close> may lead back to
  itself. The function is therefore partial, and \<open>None\<close> stands for a call that does not
  return.

  The parameters of an unnamed type are a slice of the entry of \<^verbatim>\<open>desc.Unnamed\<close>, and the
  callee removes \<^verbatim>\<open>opt\<close> from it in place before it does anything else. The case writes
  this change to the description it hands to the callee: the entry keeps its first element
  and holds \<open>optBacking\<close> of the others. The callee itself gets the parameters as they
  were, as in the program. The other callers of \<^verbatim>\<open>generateArg\<close> do the same for the
  slices they own.

  The argument \<^verbatim>\<open>parent\<close> is not read by the program.
\<close>

partial_function (option) generateArg ::
  "string \<Rightarrow> string \<Rightarrow> string \<Rightarrow> string \<Rightarrow> string list \<Rightarrow> Description \<Rightarrow> constTable
     \<Rightarrow> bool \<Rightarrow> bool \<Rightarrow> string \<Rightarrow> (error + Type \<times> string \<times> Description) option" where
  "generateArg parent name typ dir a0 desc consts isArg isField skipCurrentSyscall =
     (let opt = fst (removeOpt a0); a = snd (removeOpt a0) in
      if typ = ''fileoff'' then
        Some (finishArg isArg name typ skipCurrentSyscall desc (arg_fileoff name dir opt a isField))
      else if typ = ''buffer'' then
        Some (finishArg isArg name typ skipCurrentSyscall desc (arg_buffer name dir opt a))
      else if typ = ''string'' then
        Some (finishArg isArg name typ skipCurrentSyscall desc
                (arg_string name dir opt a desc consts))
      else if typ = ''salg_type'' then
        Some (finishArg isArg name typ skipCurrentSyscall desc (arg_salg_type name dir opt a))
      else if typ = ''salg_name'' then
        Some (finishArg isArg name typ skipCurrentSyscall desc (arg_salg_name name dir opt a))
      else if typ = ''vma'' then
        Some (finishArg isArg name typ skipCurrentSyscall desc (arg_vma name dir opt a consts))
      else if typ \<in> set [''len'', ''bytesize'', ''bytesize2'', ''bytesize4'', ''bytesize8''] then
        Some (finishArg isArg name typ skipCurrentSyscall desc
                (arg_len typ name dir opt a isField))
      else if typ = ''flags'' then
        Some (finishArg isArg name typ skipCurrentSyscall desc
                (arg_flags name dir opt a desc isField))
      else if typ = ''const'' then
        Some (bindE (arg_const name dir opt a consts isField skipCurrentSyscall)
                (\<lambda>(r, skip'). finishArg isArg name typ skip' desc (Inr r)))
      else if typ = ''proc'' then
        Some (finishArg isArg name typ skipCurrentSyscall desc
                (arg_proc name dir opt a isField))
      else if typ \<in> set [''int8'', ''int16'', ''int32'', ''int64'', ''intptr'',
                          ''int16be'', ''int32be'', ''int64be'', ''intptrbe''] then
        Some (finishArg isArg name typ skipCurrentSyscall desc
                (arg_int typ name dir opt a consts))
      else if typ = ''signalno'' then
        Some (finishArg isArg name typ skipCurrentSyscall desc (arg_signalno name dir opt a))
      else if typ = ''filename'' then
        Some (finishArg isArg name typ skipCurrentSyscall desc (arg_filename name dir opt a))
      else if typ = ''array'' then
        (if length a \<noteq> 1 \<and> length a \<noteq> 2
         then Some (Inl (WrongNumberOfArguments typ name (length a)))
         else if length a = 1 then
           (if a ! 0 = ''int8'' then
              Some (finishArg isArg name typ skipCurrentSyscall desc
                      (bindE (common name dir opt) (\<lambda>c.
                         Inr (False, BufferType c BufferBlobRand))))
            else
              (case common name dir opt of
                 Inl e \<Rightarrow> Some (Inl e)
               | Inr c \<Rightarrow>
                   Option.bind
                     (generateArg [] [] (a ! 0) dir [] desc consts False True skipCurrentSyscall)
                     (\<lambda>r. Some (bindE r (\<lambda>(t, skip', desc').
                        finishArg isArg name typ skip' desc'
                          (Inr (False, ArrayType c t ArrayRandLen)))))))
         else
           (case parseRange (a ! 1) consts of
              Inl e \<Rightarrow> Some (Inl e)
            | Inr (begin, end') \<Rightarrow>
                if a ! 0 = ''int8'' then
                  Some (finishArg isArg name typ skipCurrentSyscall desc
                          (bindE (common name dir opt) (\<lambda>c.
                             Inr (False, BufferType c (BufferBlobRange begin end')))))
                else
                  (case common name dir opt of
                     Inl e \<Rightarrow> Some (Inl e)
                   | Inr c \<Rightarrow>
                       Option.bind
                         (generateArg [] [] (a ! 0) dir [] desc consts False True
                            skipCurrentSyscall)
                         (\<lambda>r. Some (bindE r (\<lambda>(t, skip', desc').
                            finishArg isArg name typ skip' desc'
                              (Inr (False, ArrayType c t (ArrayRangeLen begin end')))))))))
      else if typ = ''ptr'' then
        (if length a \<noteq> 2 then Some (Inl (WrongNumberOfArguments typ name (length a)))
         else
           (case common name ''in'' opt of
              Inl e \<Rightarrow> Some (Inl e)
            | Inr c \<Rightarrow>
                Option.bind
                  (generateArg [] [] (a ! 1) (a ! 0) [] desc consts False True skipCurrentSyscall)
                  (\<lambda>r. Some (bindE r (\<lambda>(t, skip', desc').
                     finishArg isArg name typ skip' desc' (Inr (True, PtrType c t)))))))
      else if hasPrefix typ ''unnamed'' then
        (case Unnamed desc typ of
           Some inner \<Rightarrow>
             if inner = [] then Some (Inl RuntimePanic)
             else
               Option.bind
                 (generateArg [] [] (inner ! 0) dir (tl inner)
                    (desc\<lparr>Unnamed := (Unnamed desc)(typ \<mapsto> hd inner # optBacking (tl inner))\<rparr>)
                    consts False isField skipCurrentSyscall)
                 (\<lambda>r. Some (bindE r (\<lambda>(t, skip', desc').
                    finishArg isArg name typ skip' desc' (Inr (False, t)))))
         | None \<Rightarrow> Some (Inl (UnknownUnnamedType typ)))
      else if map_of (Structs desc) typ \<noteq> None then
        (if length a \<noteq> 0 then Some (Inl (StructHasArgs typ))
         else Some (finishArg isArg name typ skipCurrentSyscall desc
                      (Inr (False, StructsAt \<lparr>key_name = typ, key_field = name, key_dir = dir\<rparr>))))
      else if map_of (Resources desc) typ \<noteq> None then
        (if length a \<noteq> 0 then Some (Inl (ResourceHasArgs typ))
         else Some (bindE (common name dir opt) (\<lambda>c.
                      Inr (ResourceType c typ, skipCurrentSyscall, desc))))
      else Some (Inl (UnknownArgType typ name)))"

text \<open>\<^verbatim>\<open>generateType\<close>, as \<^verbatim>\<open>generateArg\<close> uses it above.\<close>

definition generateType ::
  "string \<Rightarrow> string \<Rightarrow> Description \<Rightarrow> constTable \<Rightarrow> string
     \<Rightarrow> (error + Type \<times> string \<times> Description) option" where
  "generateType typ dir desc consts skipCurrentSyscall =
     generateArg [] [] typ dir [] desc consts False True skipCurrentSyscall"


declare generateArg.simps [code]

text \<open>The labels of the \<^verbatim>\<open>switch\<close>; any other type name goes to its \<^verbatim>\<open>default\<close> case.\<close>

definition switchLabels :: "string list" where
  "switchLabels =
     [''fileoff'', ''buffer'', ''string'', ''salg_type'', ''salg_name'', ''vma'',
      ''len'', ''bytesize'', ''bytesize2'', ''bytesize4'', ''bytesize8'', ''flags'',
      ''const'', ''proc'',
      ''int8'', ''int16'', ''int32'', ''int64'', ''intptr'',
      ''int16be'', ''int32be'', ''int64be'', ''intptrbe'',
      ''signalno'', ''filename'', ''array'', ''ptr'']"

subsection \<open>Loops over the description\<close>

text \<open>
  The loops of the generator run their body for each element in turn; the body may end the
  program, may not return, and may change \<^verbatim>\<open>skipCurrentSyscall\<close> and the description.
  \<open>bindO\<close> sequences two such steps and \<open>forEach\<close> is the loop, which collects what the
  body printed for each element.
\<close>

type_synonym state = "string \<times> Description"

definition bindO :: "('e + 'a) option \<Rightarrow> ('a \<Rightarrow> ('e + 'b) option) \<Rightarrow> ('e + 'b) option" where
  "bindO m f = (case m of None \<Rightarrow> None | Some (Inl e) \<Rightarrow> Some (Inl e) | Some (Inr x) \<Rightarrow> f x)"

fun forEach ::
  "('x \<Rightarrow> 's \<Rightarrow> (error + 'y \<times> 's) option) \<Rightarrow> 'x list \<Rightarrow> 's
     \<Rightarrow> (error + 'y list \<times> 's) option" where
  "forEach body [] st = Some (Inr ([], st))"
| "forEach body (x # xs) st =
     bindO (body x st) (\<lambda>(y, st').
       bindO (forEach body xs st') (\<lambda>(ys, st''). Some (Inr (y # ys, st''))))"

subsection \<open>\<^verbatim>\<open>generateResources\<close>\<close>

definition intKinds :: "string list" where
  "intKinds = [''int8'', ''int16'', ''int32'', ''int64'', ''intptr'']"

text \<open>The values of one resource on this architecture (the inner loop over \<^verbatim>\<open>res.Values\<close>).\<close>

fun resourceValues :: "constTable \<Rightarrow> string list \<Rightarrow> string list" where
  "resourceValues consts [] = []"
| "resourceValues consts (v # vs) =
     (case consts v of
        Some v1 \<Rightarrow> showNat (unat v1) # resourceValues consts vs
      | None \<Rightarrow> if \<not> isIdentifier v then v # resourceValues consts vs
                else resourceValues consts vs)"

text \<open>
  The loop labelled \<^verbatim>\<open>loop\<close>: it has no exit but the \<^verbatim>\<open>break\<close> at a primitive base and
  the \<^verbatim>\<open>failf\<close> at an unknown one, so it is a partial function of the variables
  \<^verbatim>\<open>res\<close>, \<^verbatim>\<open>kind\<close> and \<^verbatim>\<open>values\<close>. It returns \<^verbatim>\<open>underlying\<close>, \<^verbatim>\<open>kind\<close> and
  \<^verbatim>\<open>values\<close>.
\<close>

partial_function (option) resourceLoop ::
  "Description \<Rightarrow> constTable \<Rightarrow> string \<Rightarrow> Resource \<Rightarrow> string list \<Rightarrow> string list
     \<Rightarrow> (error + string \<times> string list \<times> string list) option" where
  "resourceLoop desc consts name res kind values =
     (let values' = resourceValues consts (Values res) @ values in
      if Base res \<in> set intKinds then Some (Inr (Base res, kind, values'))
      else (case map_of (Resources desc) (Base res) of
              None \<Rightarrow> Some (Inl (UnknownParentResource name (Base res)))
            | Some res' \<Rightarrow> resourceLoop desc consts name res' (Base res # kind) values'))"

declare resourceLoop.simps [code]

datatype ResourceDesc =
  ResourceDesc (rd_Name: string) (rd_Type: Type) (rd_Kind: "string list") (rd_Values: "string list")

text \<open>The body of the loop over \<^verbatim>\<open>resArray\<close>: one entry of the table \<^verbatim>\<open>Resources\<close>.\<close>

definition generateResource ::
  "constTable \<Rightarrow> Resource \<Rightarrow> state \<Rightarrow> (error + ResourceDesc \<times> state) option" where
  "generateResource consts res st =
     (case st of (skipCurrentSyscall, desc) \<Rightarrow>
        bindO (resourceLoop desc consts (Name res) res [Name res] [])
          (\<lambda>(underlying, kind, values).
             bindO (generateArg [] ''resource-type'' underlying ''inout'' [] desc consts
                      True True skipCurrentSyscall)
               (\<lambda>(t, st').
                  Some (Inr (ResourceDesc (Name res) t kind
                               (if length values = 0 then [''0''] else values), st')))))"

text \<open>
  \<^verbatim>\<open>resArray\<close> holds the values of \<^verbatim>\<open>desc.Resources\<close>, sorted by name.
\<close>

definition generateResources ::
  "constTable \<Rightarrow> state \<Rightarrow> (error + ResourceDesc list \<times> state) option" where
  "generateResources consts st =
     forEach (generateResource consts) (sort_key Name (map snd (Resources (snd st)))) st"

subsection \<open>\<^verbatim>\<open>generateStructs\<close>\<close>

definition dirs :: "string list" where
  "dirs = [''in'', ''out'', ''inout'']"

text \<open>
  \<^verbatim>\<open>structMap\<close> maps a key to a copy of a \<^verbatim>\<open>Struct\<close>. The fields of a \<^verbatim>\<open>Struct\<close> are a
  slice of slices, so a copy shares the parameters of its fields with the entry of
  \<^verbatim>\<open>desc.Structs\<close> it was copied from, and sees every \<^verbatim>\<open>opt\<close> that \<^verbatim>\<open>generateArg\<close>
  removes from them. Here \<open>structMap\<close> holds the name of that entry in place of the copy,
  and the struct is read from the description when it is used.
\<close>

type_synonym structMap = "structKey \<rightharpoonup> string"

definition registerDirs :: "string \<Rightarrow> string \<Rightarrow> string \<Rightarrow> structMap \<Rightarrow> structMap" where
  "registerDirs name' field' entry m =
     foldl (\<lambda>m d. m(\<lparr>key_name = name', key_field = field', key_dir = d\<rparr> \<mapsto> entry)) m dirs"

fun registerFields :: "Description \<Rightarrow> string list list \<Rightarrow> structMap \<Rightarrow> error + structMap" where
  "registerFields desc [] m = Inr m"
| "registerFields desc (a # flds) m =
     (if length a < 2 then Inl RuntimePanic
      else if map_of (Structs desc) (a ! 1) \<noteq> None
        then registerFields desc flds (registerDirs (a ! 1) (a ! 0) (a ! 1) m)
      else registerFields desc flds m)"

fun registerStructs ::
  "Description \<Rightarrow> (string \<times> Struct) list \<Rightarrow> structMap \<Rightarrow> error + structMap" where
  "registerStructs desc [] m = Inr m"
| "registerStructs desc ((n, str) # strs) m =
     bindE (registerFields desc (Flds str) (registerDirs (Name str) [] n m))
       (\<lambda>m'. registerStructs desc strs m')"

definition makeStructMap :: "Description \<Rightarrow> error + structMap" where
  "makeStructMap desc = registerStructs desc (Structs desc) Map.empty"

datatype StructEntry =
    StructType TypeCommon bool nat bool
  | UnionType TypeCommon bool nat bool

definition generateStructEntry :: "Struct \<Rightarrow> structKey \<Rightarrow> error + structKey \<times> StructEntry" where
  "generateStructEntry str key =
     (let name' = (if key_field key = [] then key_name key else key_field key)
      in bindE (fmtDir (key_dir key)) (\<lambda>d.
           let c = \<lparr>TypeName = name', ArgDir = d, IsOptional = False\<rparr>
           in Inr (key, if IsUnion str then UnionType c (Packed str) (Align str) (Varlen str)
                        else StructType c (Packed str) (Align str) (Varlen str))))"

text \<open>One field of a struct: \<^verbatim>\<open>a[0]\<close> is its name, \<^verbatim>\<open>a[1]\<close> its type, \<^verbatim>\<open>a[2:]\<close> the parameters.\<close>

definition generateField ::
  "string \<Rightarrow> string \<Rightarrow> constTable \<Rightarrow> string list \<Rightarrow> state \<Rightarrow> (error + Type \<times> state) option" where
  "generateField parent dir consts a st =
     (case st of (skipCurrentSyscall, desc) \<Rightarrow>
        if length a < 2 then Some (Inl RuntimePanic)
        else generateArg parent (a ! 0) (a ! 1) dir (drop 2 a) desc consts False True
               skipCurrentSyscall)"

text \<open>What the slice of a field holds once \<^verbatim>\<open>generateArg\<close> has run on its parameters.\<close>

definition optField :: "string list \<Rightarrow> string list" where
  "optField a = take 2 a @ optBacking (drop 2 a)"

definition updateFlds :: "string \<Rightarrow> Description \<Rightarrow> Description" where
  "updateFlds n desc =
     desc\<lparr>Structs :=
       map (\<lambda>(k, str). if k = n then (k, str\<lparr>Flds := map optField (Flds str)\<rparr>) else (k, str))
         (Structs desc)\<rparr>"

text \<open>
  \<^verbatim>\<open>generateStructFields\<close> for the key \<open>key\<close> and the struct of the entry \<open>n\<close>: the list
  the function appends to \<^verbatim>\<open>Fields\<close> or \<^verbatim>\<open>Options\<close> of \<^verbatim>\<open>Structs[key]\<close>. The fields are
  the ones the description holds when the function starts; at its end the description
  holds them with \<^verbatim>\<open>opt\<close> removed in place.
\<close>

definition generateStructFields ::
  "constTable \<Rightarrow> structKey \<times> string \<Rightarrow> state
     \<Rightarrow> (error + (structKey \<times> Type list) \<times> state) option" where
  "generateStructFields consts kn st =
     (case kn of (key, n) \<Rightarrow>
        case map_of (Structs (snd st)) n of
          None \<Rightarrow> Some (Inl RuntimePanic)
        | Some str \<Rightarrow>
            bindO (forEach (generateField (Name str) (key_dir key) consts) (Flds str) st)
              (\<lambda>(ts, (skip', desc')). Some (Inr ((key, ts), (skip', updateFlds n desc')))))"

fun entriesLoop ::
  "Description \<Rightarrow> (structKey \<times> string) list \<Rightarrow> error + (structKey \<times> StructEntry) list" where
  "entriesLoop desc [] = Inr []"
| "entriesLoop desc ((key, n) # kns) =
     (case map_of (Structs desc) n of
        None \<Rightarrow> Inl RuntimePanic
      | Some str \<Rightarrow>
          bindE (generateStructEntry str key) (\<lambda>e.
            bindE (entriesLoop desc kns) (\<lambda>es. Inr (e # es))))"

text \<open>
  Go leaves the order in which a \<^verbatim>\<open>range\<close> visits a map open. The first loop of
  \<^verbatim>\<open>generateStructs\<close> runs over \<^verbatim>\<open>desc.Structs\<close> in the order of the list; for the two
  loops over \<^verbatim>\<open>structMap\<close> the orders are the arguments \<open>order1\<close> and \<open>order2\<close>, each a
  list of the entries of \<^verbatim>\<open>structMap\<close> (\<open>enumerates\<close>).
\<close>

definition enumerates :: "(structKey \<times> string) list \<Rightarrow> structMap \<Rightarrow> bool" where
  "enumerates order' m = (distinct (map fst order') \<and> map_of order' = m)"

definition generateStructs ::
  "(structKey \<times> string) list \<Rightarrow> (structKey \<times> string) list \<Rightarrow> constTable \<Rightarrow> state
     \<Rightarrow> (error + ((structKey \<times> StructEntry) list \<times> (structKey \<times> Type list) list) \<times> state)
          option" where
  "generateStructs order1 order2 consts st =
     (case makeStructMap (snd st) of
        Inl e \<Rightarrow> Some (Inl e)
      | Inr structMap \<Rightarrow>
          (case entriesLoop (snd st) order1 of
             Inl e \<Rightarrow> Some (Inl e)
           | Inr entries \<Rightarrow>
               bindO (forEach (generateStructFields consts) order2 st)
                 (\<lambda>(flds, st'). Some (Inr ((entries, flds), st')))))"

subsection \<open>The calls\<close>

datatype Call =
  Call (call_Name: string) (call_CallName: string) (call_Ret: "Type option")
       (call_Args: "Type list") (call_NR: int)

text \<open>One argument of a call: \<^verbatim>\<open>a[0]\<close> is its name, \<^verbatim>\<open>a[1]\<close> its type.\<close>

definition generateCallArg ::
  "constTable \<Rightarrow> string list \<Rightarrow> state \<Rightarrow> (error + Type \<times> state) option" where
  "generateCallArg consts a st =
     (case st of (skipCurrentSyscall, desc) \<Rightarrow>
        if length a < 2 then Some (Inl RuntimePanic)
        else generateArg [] (a ! 0) (a ! 1) ''in'' (drop 2 a) desc consts True False
               skipCurrentSyscall)"

definition generateRet ::
  "constTable \<Rightarrow> string list \<Rightarrow> state \<Rightarrow> (error + Type option \<times> state) option" where
  "generateRet consts ret st =
     (case st of (skipCurrentSyscall, desc) \<Rightarrow>
        if length ret \<noteq> 0 then
          bindO (generateArg [] ''ret'' (ret ! 0) ''out'' (tl ret) desc consts True False
                   skipCurrentSyscall)
            (\<lambda>(t, st'). Some (Inr (Some t, st')))
        else Some (Inr (None, st)))"

text \<open>
  The body of the loop over \<^verbatim>\<open>desc.Syscalls\<close>. \<^verbatim>\<open>int(nr)\<close> reads the 64 bits of the
  number as a signed value. The slices \<^verbatim>\<open>s.Ret\<close> and \<^verbatim>\<open>s.Args\<close> are read once, by this
  body, so what the removal of \<^verbatim>\<open>opt\<close> leaves in them is not recorded.
\<close>

definition generateCall ::
  "constTable \<Rightarrow> Syscall \<Rightarrow> state \<Rightarrow> (error + Call \<times> state) option" where
  "generateCall consts s st =
     (let skipCurrentSyscall = [];
          syscallNR = (case consts (''__NR_'' @ CallName s) of
                         Some nr \<Rightarrow> sint nr
                       | None \<Rightarrow> - 1)
      in bindO (generateRet consts (Ret s) (skipCurrentSyscall, snd st)) (\<lambda>(ret, st1).
         bindO (forEach (generateCallArg consts) (Args s) st1) (\<lambda>(args, st2).
           Some (Inr (Call (Name s) (CallName s) ret args
                        (if fst st2 \<noteq> [] then - 1 else syscallNR), st2)))))"

text \<open>
  \<^verbatim>\<open>generate\<close>: the resources, the structs and the calls of one architecture. The list of
  constants that the function prints last is left out.
\<close>

definition generate ::
  "(structKey \<times> string) list \<Rightarrow> (structKey \<times> string) list \<Rightarrow> Description \<Rightarrow> constTable
     \<Rightarrow> string
     \<Rightarrow> (error + (ResourceDesc list
                   \<times> ((structKey \<times> StructEntry) list \<times> (structKey \<times> Type list) list)
                   \<times> Call list) \<times> state) option" where
  "generate order1 order2 desc consts skipCurrentSyscall =
     bindO (generateResources consts (skipCurrentSyscall, desc)) (\<lambda>(resources, st1).
     bindO (generateStructs order1 order2 consts st1) (\<lambda>(structs, st2).
     bindO (forEach (generateCall consts) (Syscalls desc) st2) (\<lambda>(calls, st3).
       Some (Inr ((resources, structs, calls), st3)))))"


subsection \<open>The chain of bases of a resource\<close>

text \<open>
  The two notions the statements about resources use. \<open>chainEnds desc n res\<close>: following
  \<^verbatim>\<open>Base\<close> from \<open>res\<close> through \<^verbatim>\<open>desc.Resources\<close>, the \<open>n\<close>-th resource is the first whose
  base is a primitive integer kind or no resource at all. \<open>baseChain desc n res\<close>: the
  resources on the way, \<open>res\<close> first, when the chain reaches a primitive kind in \<open>n\<close> hops.
\<close>

fun chainEnds :: "Description \<Rightarrow> nat \<Rightarrow> Resource \<Rightarrow> bool" where
  "chainEnds desc 0 res =
     (Base res \<in> set intKinds \<or> map_of (Resources desc) (Base res) = None)"
| "chainEnds desc (Suc n) res =
     (Base res \<notin> set intKinds \<and>
      (case map_of (Resources desc) (Base res) of
         None \<Rightarrow> False
       | Some res' \<Rightarrow> chainEnds desc n res'))"

fun baseChain :: "Description \<Rightarrow> nat \<Rightarrow> Resource \<Rightarrow> Resource list option" where
  "baseChain desc 0 res = (if Base res \<in> set intKinds then Some [res] else None)"
| "baseChain desc (Suc n) res =
     (if Base res \<in> set intKinds then None
      else (case map_of (Resources desc) (Base res) of
              None \<Rightarrow> None
            | Some res' \<Rightarrow> map_option (\<lambda>rs. res # rs) (baseChain desc n res')))"

subsection \<open>Inputs of the examples\<close>

definition noConsts :: constTable where
  "noConsts = Map.empty"

definition emptyDesc :: Description where
  "emptyDesc = \<lparr>Syscalls = [], Structs = [], Resources = [], Flags = Map.empty,
                 StrFlags = Map.empty, Unnamed = Map.empty\<rparr>"

text \<open>A string literal as the parser hands it over: between double quotes.\<close>

definition quoted :: "string \<Rightarrow> string" where
  "quoted s = [CHR 0x22] @ s @ [CHR 0x22]"

text \<open>One resource \<^verbatim>\<open>fd\<close> on \<^verbatim>\<open>int32\<close>, without values.\<close>

definition fdDesc :: Description where
  "fdDesc = \<lparr>Syscalls = [], Structs = [],
              Resources = [(''fd'', \<lparr>Name = ''fd'', Base = ''int32'', Values = []\<rparr>)],
              Flags = Map.empty, StrFlags = Map.empty, Unnamed = Map.empty\<rparr>"

text \<open>
  A call with a \<^verbatim>\<open>const\<close> argument whose value has no constant on the architecture,
  and a table that knows the number of the call.
\<close>

definition ioctlCall :: Syscall where
  "ioctlCall = \<lparr>Name = ''ioctl$x'', CallName = ''ioctl'',
                 Args = [[''fd'', ''fd''], [''cmd'', ''const'', ''MISSING_CMD'']], Ret = []\<rparr>"

definition ioctlConsts :: constTable where
  "ioctlConsts = [''__NR_ioctl'' \<mapsto> 16]"

text \<open>The call \<^verbatim>\<open>read$variant\<close>, to be compiled for an architecture without \<^verbatim>\<open>__NR_read\<close>.\<close>

definition readCall :: Syscall where
  "readCall = \<lparr>Name = ''read$variant'', CallName = ''read'',
                Args = [[''fd'', ''fd''], [''buf'', ''buffer'', ''out''], [''count'', ''len'', ''buf'']],
                Ret = [''intptr'']\<rparr>"

definition readDesc :: Description where
  "readDesc = fdDesc\<lparr>Syscalls := [readCall]\<rparr>"


text \<open>A resource that is its own base, two resources that are each other's base, and a
  resource whose base is unknown.\<close>

definition selfDesc :: Description where
  "selfDesc = \<lparr>Syscalls = [], Structs = [],
                Resources = [(''A'', \<lparr>Name = ''A'', Base = ''A'', Values = []\<rparr>)],
                Flags = Map.empty, StrFlags = Map.empty, Unnamed = Map.empty\<rparr>"

definition cycleDesc :: Description where
  "cycleDesc = \<lparr>Syscalls = [], Structs = [],
                 Resources = [(''A'', \<lparr>Name = ''A'', Base = ''B'', Values = []\<rparr>),
                              (''B'', \<lparr>Name = ''B'', Base = ''A'', Values = []\<rparr>)],
                 Flags = Map.empty, StrFlags = Map.empty, Unnamed = Map.empty\<rparr>"

definition orphanDesc :: Description where
  "orphanDesc = \<lparr>Syscalls = [], Structs = [],
                  Resources = [(''A'', \<lparr>Name = ''A'', Base = ''nobody'', Values = []\<rparr>)],
                  Flags = Map.empty, StrFlags = Map.empty, Unnamed = Map.empty\<rparr>"

text \<open>A resource \<^verbatim>\<open>sock\<close> on \<^verbatim>\<open>fd\<close> on \<^verbatim>\<open>int32\<close>, with values.\<close>

definition sockConsts :: constTable where
  "sockConsts = [''SOCK_STREAM'' \<mapsto> 1]"

definition sockDesc :: Description where
  "sockDesc = \<lparr>Syscalls = [], Structs = [],
                Resources = [(''fd'', \<lparr>Name = ''fd'', Base = ''int32'', Values = [''0xffffffffffffffff'']\<rparr>),
                             (''sock'', \<lparr>Name = ''sock'', Base = ''fd'',
                                         Values = [''SOCK_STREAM'', ''SOCK_MISSING'']\<rparr>)],
                Flags = Map.empty, StrFlags = Map.empty, Unnamed = Map.empty\<rparr>"

text \<open>A struct \<^verbatim>\<open>S\<close> and an unnamed type that stands for \<^verbatim>\<open>array[int32]\<close>.\<close>

definition wrapDesc :: Description where
  "wrapDesc = \<lparr>Syscalls = [],
                Structs = [(''S'', \<lparr>Name = ''S'', Flds = [[''x'', ''int32'']], IsUnion = False,
                                     Packed = False, Varlen = False, Align = 0\<rparr>)],
                Resources = [], Flags = Map.empty, StrFlags = Map.empty,
                Unnamed = [''unnamed0'' \<mapsto> [''array'', ''int32'']]\<rparr>"

(*THEOREMS*)

section \<open>Properties\<close>

subsection \<open>Basic facts\<close>

lemma bindE_Inr: "bindE m f = Inr y \<longleftrightarrow> (\<exists>x. m = Inr x \<and> f x = Inr y)"
  by (cases m) (simp_all add: bindE_def)

lemma bindE_Inl: "bindE m f = Inl e \<longleftrightarrow> m = Inl e \<or> (\<exists>x. m = Inr x \<and> f x = Inl e)"
  by (cases m) (simp_all add: bindE_def)

lemma bind_Some_iff: "Option.bind m f = Some y \<longleftrightarrow> (\<exists>x. m = Some x \<and> f x = Some y)"
  by (cases m) simp_all

lemma bindO_Inr:
  "bindO m f = Some (Inr y) \<longleftrightarrow> (\<exists>x. m = Some (Inr x) \<and> f x = Some (Inr y))"
  by (auto simp: bindO_def split: option.splits sum.splits)

lemma finishArg_Inr:
  "finishArg isArg name typ skip desc r = Inr (t, skip', desc') \<longleftrightarrow>
     (\<exists>canBeArg. r = Inr (canBeArg, t) \<and> (isArg \<longrightarrow> canBeArg) \<and> skip' = skip \<and> desc' = desc)"
  by (auto simp: finishArg_def bindE_def split: sum.splits)

lemma fmtDir_Inr:
  "fmtDir s = Inr d \<longleftrightarrow>
     (s = ''in'' \<and> d = DirIn) \<or> (s = ''out'' \<and> d = DirOut) \<or> (s = ''inout'' \<and> d = DirInOut)"
  by (auto simp: fmtDir_def)

lemma common_Inr:
  "common name dir opt = Inr c \<longleftrightarrow>
     (\<exists>d. fmtDir dir = Inr d \<and> c = \<lparr>TypeName = name, ArgDir = d, IsOptional = opt\<rparr>)"
  by (auto simp: common_def bindE_Inr)

subsection \<open>The dispatch of \<^verbatim>\<open>generateArg\<close>\<close>

lemma generateArg_filename:
  "generateArg parent name ''filename'' dir a0 desc consts isArg isField skip =
     Some (finishArg isArg name ''filename'' skip desc
             (arg_filename name dir (fst (removeOpt a0)) (snd (removeOpt a0))))"
  by (subst generateArg.simps) (simp add: Let_def)

lemma generateArg_buffer:
  "generateArg parent name ''buffer'' dir a0 desc consts isArg isField skip =
     Some (finishArg isArg name ''buffer'' skip desc
             (arg_buffer name dir (fst (removeOpt a0)) (snd (removeOpt a0))))"
  by (subst generateArg.simps) (simp add: Let_def)

lemma generateArg_string:
  "generateArg parent name ''string'' dir a0 desc consts isArg isField skip =
     Some (finishArg isArg name ''string'' skip desc
             (arg_string name dir (fst (removeOpt a0)) (snd (removeOpt a0)) desc consts))"
  by (subst generateArg.simps) (simp add: Let_def)

lemma generateArg_default:
  "typ \<notin> set switchLabels \<Longrightarrow>
   generateArg parent name typ dir a0 desc consts isArg isField skip =
     (if hasPrefix typ ''unnamed'' then
        (case Unnamed desc typ of
           Some inner \<Rightarrow>
             if inner = [] then Some (Inl RuntimePanic)
             else
               Option.bind
                 (generateArg [] [] (inner ! 0) dir (tl inner)
                    (desc\<lparr>Unnamed := (Unnamed desc)(typ \<mapsto> hd inner # optBacking (tl inner))\<rparr>)
                    consts False isField skip)
                 (\<lambda>r. Some (bindE r (\<lambda>(t, skip', desc').
                    finishArg isArg name typ skip' desc' (Inr (False, t)))))
         | None \<Rightarrow> Some (Inl (UnknownUnnamedType typ)))
      else if map_of (Structs desc) typ \<noteq> None then
        (if length (snd (removeOpt a0)) \<noteq> 0 then Some (Inl (StructHasArgs typ))
         else Some (finishArg isArg name typ skip desc
                      (Inr (False, StructsAt \<lparr>key_name = typ, key_field = name, key_dir = dir\<rparr>))))
      else if map_of (Resources desc) typ \<noteq> None then
        (if length (snd (removeOpt a0)) \<noteq> 0 then Some (Inl (ResourceHasArgs typ))
         else Some (bindE (common name dir (fst (removeOpt a0))) (\<lambda>c.
                      Inr (ResourceType c typ, skip, desc))))
      else Some (Inl (UnknownArgType typ name)))"
  by (subst generateArg.simps) (simp add: Let_def switchLabels_def)

lemma generateArg_proc:
  "generateArg parent name ''proc'' dir a0 desc consts isArg isField skip =
     Some (finishArg isArg name ''proc'' skip desc
             (arg_proc name dir (fst (removeOpt a0)) (snd (removeOpt a0)) isField))"
  by (subst generateArg.simps) (simp add: Let_def)

lemma generateArg_const:
  "generateArg parent name ''const'' dir a0 desc consts isArg isField skip =
     Some (bindE (arg_const name dir (fst (removeOpt a0)) (snd (removeOpt a0)) consts isField skip)
             (\<lambda>(r, skip'). finishArg isArg name ''const'' skip' desc (Inr r)))"
  by (subst generateArg.simps) (simp add: Let_def)

lemma generateArg_len:
  assumes "typ = ''len'' \<or> typ = ''bytesize'' \<or> typ = ''bytesize2'' \<or> typ = ''bytesize4''
           \<or> typ = ''bytesize8''"
  shows "generateArg parent name typ dir a0 desc consts isArg isField skip =
     Some (finishArg isArg name typ skip desc
             (arg_len typ name dir (fst (removeOpt a0)) (snd (removeOpt a0)) isField))"
  using assms by (elim disjE; simp; subst generateArg.simps; simp add: Let_def)

lemma generateArg_int:
  assumes "typ = ''int8'' \<or> typ = ''int16'' \<or> typ = ''int32'' \<or> typ = ''int64''
           \<or> typ = ''intptr'' \<or> typ = ''int16be'' \<or> typ = ''int32be'' \<or> typ = ''int64be''
           \<or> typ = ''intptrbe''"
  shows "generateArg parent name typ dir a0 desc consts isArg isField skip =
     Some (finishArg isArg name typ skip desc
             (arg_int typ name dir (fst (removeOpt a0)) (snd (removeOpt a0)) consts))"
  using assms by (elim disjE; simp; subst generateArg.simps; simp add: Let_def)

lemma generateArg_array:
  "generateArg parent name ''array'' dir a0 desc consts isArg isField skip =
     (let opt = fst (removeOpt a0); a = snd (removeOpt a0) in
        if length a \<noteq> 1 \<and> length a \<noteq> 2
         then Some (Inl (WrongNumberOfArguments ''array'' name (length a)))
         else if length a = 1 then
           (if a ! 0 = ''int8'' then
              Some (finishArg isArg name ''array'' skip desc
                      (bindE (common name dir opt) (\<lambda>c.
                         Inr (False, BufferType c BufferBlobRand))))
            else
              (case common name dir opt of
                 Inl e \<Rightarrow> Some (Inl e)
               | Inr c \<Rightarrow>
                   Option.bind
                     (generateArg [] [] (a ! 0) dir [] desc consts False True skip)
                     (\<lambda>r. Some (bindE r (\<lambda>(t, skip', desc').
                        finishArg isArg name ''array'' skip' desc'
                          (Inr (False, ArrayType c t ArrayRandLen)))))))
         else
           (case parseRange (a ! 1) consts of
              Inl e \<Rightarrow> Some (Inl e)
            | Inr (begin, end') \<Rightarrow>
                if a ! 0 = ''int8'' then
                  Some (finishArg isArg name ''array'' skip desc
                          (bindE (common name dir opt) (\<lambda>c.
                             Inr (False, BufferType c (BufferBlobRange begin end')))))
                else
                  (case common name dir opt of
                     Inl e \<Rightarrow> Some (Inl e)
                   | Inr c \<Rightarrow>
                       Option.bind
                         (generateArg [] [] (a ! 0) dir [] desc consts False True skip)
                         (\<lambda>r. Some (bindE r (\<lambda>(t, skip', desc').
                            finishArg isArg name ''array'' skip' desc'
                              (Inr (False, ArrayType c t (ArrayRangeLen begin end')))))))))"
  by (subst generateArg.simps) (simp add: Let_def)

lemma generateArg_ptr:
  "generateArg parent name ''ptr'' dir a0 desc consts isArg isField skip =
     (let opt = fst (removeOpt a0); a = snd (removeOpt a0) in
        if length a \<noteq> 2 then Some (Inl (WrongNumberOfArguments ''ptr'' name (length a)))
         else
           (case common name ''in'' opt of
              Inl e \<Rightarrow> Some (Inl e)
            | Inr c \<Rightarrow>
                Option.bind
                  (generateArg [] [] (a ! 1) (a ! 0) [] desc consts False True skip)
                  (\<lambda>r. Some (bindE r (\<lambda>(t, skip', desc').
                     finishArg isArg name ''ptr'' skip' desc' (Inr (True, PtrType c t)))))))"
  by (subst generateArg.simps) (simp add: Let_def)

subsection \<open>\<^verbatim>\<open>buffer\<close> and \<^verbatim>\<open>filename\<close>\<close>

text \<open>
  C2. The claim has the two layers the wrong way round. The header of the pointer is
  computed first, from the direction and the optional flag as they were requested; only
  then are the two variables overwritten, and the buffer inside gets the new values: no
  optional flag, and the direction \<^verbatim>\<open>in\<close> for a \<^verbatim>\<open>filename\<close>, the direction given as the
  parameter for a \<^verbatim>\<open>buffer\<close>.

  The counterexample is a \<^verbatim>\<open>filename\<close> field compiled with the direction \<^verbatim>\<open>out\<close> and
  the marker \<^verbatim>\<open>opt\<close>: the pointer is \<open>DirOut\<close> and optional, the buffer is \<open>DirIn\<close> and not
  optional, and the node the claim describes is not the one that is printed.
\<close>

theorem filename_pointer_layer_counterexample:
  "generateArg [] ''f'' ''filename'' ''out'' [''opt''] emptyDesc noConsts False True [] =
     Some (Inr (PtrType \<lparr>TypeName = ''f'', ArgDir = DirOut, IsOptional = True\<rparr>
                  (BufferType \<lparr>TypeName = ''f'', ArgDir = DirIn, IsOptional = False\<rparr>
                     BufferFilename),
                [], emptyDesc))
   \<and> generateArg [] ''f'' ''filename'' ''out'' [''opt''] emptyDesc noConsts False True [] \<noteq>
     Some (Inr (PtrType \<lparr>TypeName = ''f'', ArgDir = DirIn, IsOptional = False\<rparr>
                  (BufferType \<lparr>TypeName = ''f'', ArgDir = DirOut, IsOptional = True\<rparr>
                     BufferFilename),
                [], emptyDesc))"
  by (simp add: generateArg_filename finishArg_def arg_filename_def common_def fmtDir_def
        bindE_def)

text \<open>
  C2, as amended: whenever a \<^verbatim>\<open>buffer\<close> or a \<^verbatim>\<open>filename\<close> compiles, the node is a
  pointer to a buffer; the pointer has the requested direction and is optional exactly
  when \<^verbatim>\<open>opt\<close> was among the parameters; the buffer is never optional, and its direction
  is \<^verbatim>\<open>in\<close> for a \<^verbatim>\<open>filename\<close> and the direction parameter for a \<^verbatim>\<open>buffer\<close>.
\<close>

theorem buffer_filename_node:
  assumes "generateArg parent name typ dir a0 desc consts isArg isField skip
             = Some (Inr (t, skip', desc'))"
    and "typ = ''filename'' \<or> typ = ''buffer''"
  shows "\<exists>d d'. fmtDir dir = Inr d
           \<and> fmtDir (if typ = ''filename'' then ''in'' else snd (removeOpt a0) ! 0) = Inr d'
           \<and> t = PtrType \<lparr>TypeName = name, ArgDir = d, IsOptional = fst (removeOpt a0)\<rparr>
                   (BufferType \<lparr>TypeName = name, ArgDir = d', IsOptional = False\<rparr>
                      (if typ = ''filename'' then BufferFilename else BufferBlobRand))"
  using assms
  by (auto simp: generateArg_filename generateArg_buffer finishArg_Inr arg_filename_def
        arg_buffer_def common_def bindE_def split: sum.splits if_splits)

theorem buffer_filename_node_witness:
  "generateArg [] ''buf'' ''buffer'' ''in'' [''out'', ''opt''] emptyDesc noConsts True False []
     = Some (Inr (PtrType \<lparr>TypeName = ''buf'', ArgDir = DirIn, IsOptional = True\<rparr>
                    (BufferType \<lparr>TypeName = ''buf'', ArgDir = DirOut, IsOptional = False\<rparr>
                       BufferBlobRand),
                  [], emptyDesc))
   \<and> (''buffer'' = ''filename'' \<or> ''buffer'' = ''buffer'')
   \<and> (\<exists>d d'. fmtDir ''in'' = Inr d
         \<and> fmtDir (if ''buffer'' = ''filename'' then ''in''
                    else snd (removeOpt [''out'', ''opt'']) ! 0) = Inr d'
         \<and> PtrType \<lparr>TypeName = ''buf'', ArgDir = DirIn, IsOptional = True\<rparr>
              (BufferType \<lparr>TypeName = ''buf'', ArgDir = DirOut, IsOptional = False\<rparr>
                 BufferBlobRand)
           = PtrType \<lparr>TypeName = ''buf'', ArgDir = d,
                       IsOptional = fst (removeOpt [''out'', ''opt''])\<rparr>
               (BufferType \<lparr>TypeName = ''buf'', ArgDir = d', IsOptional = False\<rparr>
                  (if ''buffer'' = ''filename'' then BufferFilename else BufferBlobRand)))"
proof -
  have run: "generateArg [] ''buf'' ''buffer'' ''in'' [''out'', ''opt''] emptyDesc noConsts
               True False []
     = Some (Inr (PtrType \<lparr>TypeName = ''buf'', ArgDir = DirIn, IsOptional = True\<rparr>
                    (BufferType \<lparr>TypeName = ''buf'', ArgDir = DirOut, IsOptional = False\<rparr>
                       BufferBlobRand),
                  [], emptyDesc))"
    by (simp add: generateArg_buffer finishArg_def arg_buffer_def common_def fmtDir_def
          bindE_def)
  have kind: "''buffer'' = ''filename'' \<or> ''buffer'' = ''buffer''"
    by simp
  show ?thesis
    using run kind buffer_filename_node [OF run kind] by blast
qed

subsection \<open>\<^verbatim>\<open>string\<close> with a fixed length\<close>

lemma padVals_ok:
  "list_all (\<lambda>s. length s \<le> n) vals \<Longrightarrow>
   padVals name n vals = Inr (map (\<lambda>s. s @ replicate (n - length s) (CHR 0x00)) vals)"
  by (induction vals) (simp_all add: bindE_def)

lemma padVals_fail:
  "\<not> list_all (\<lambda>s. length s \<le> n) vals \<Longrightarrow>
   \<exists>s. s \<in> set vals \<and> n < length s \<and> padVals name n vals = Inl (StringValueExceeds s n name)"
  by (induction vals) (auto simp: bindE_def)

lemma arg_string_fixed:
  assumes "length a = 2" and "stringVals a desc = Inr (vals0, subkind)"
    and "stringSize name consts (a ! 1) = Inr n"
  shows "arg_string name dir opt a desc consts =
           bindE (padVals name n (map (\<lambda>s. s @ [CHR 0x00]) vals0))
             (\<lambda>vals'. bindE (common name dir opt) (\<lambda>c.
                Inr (False, BufferType c (BufferString subkind vals'))))"
  using assms by (simp add: arg_string_def bindE_def)

text \<open>
  C3. A \<^verbatim>\<open>string\<close> with two parameters has a fixed length \<open>n\<close>. Every enumerated value
  gets its terminator first, and it is the value with the terminator that is measured
  against \<open>n\<close>. If one of them is longer, the compilation ends with the error for the first
  such value. Otherwise, for a field or a pointee (a \<^verbatim>\<open>string\<close> is never a top-level
  argument) with a valid direction, the compilation succeeds and every value is followed by
  zero bytes up to the length \<open>n\<close> exactly; this holds in particular when \<open>n\<close> is the
  length of the longest value, its terminator included.
\<close>

theorem string_fixed_length:
  assumes "snd (removeOpt a0) = a" and "length a = 2"
    and "stringVals a desc = Inr (vals0, subkind)"
    and "stringSize name consts (a ! 1) = Inr n"
  shows
    "(\<not> list_all (\<lambda>s. length (s @ [CHR 0x00]) \<le> n) vals0 \<longrightarrow>
        (\<exists>s. s \<in> set vals0 \<and> n < length (s @ [CHR 0x00])
           \<and> generateArg parent name ''string'' dir a0 desc consts isArg isField skip
               = Some (Inl (StringValueExceeds (s @ [CHR 0x00]) n name))))
     \<and> (list_all (\<lambda>s. length (s @ [CHR 0x00]) \<le> n) vals0 \<and> fmtDir dir = Inr d \<and> \<not> isArg \<longrightarrow>
          generateArg parent name ''string'' dir a0 desc consts isArg isField skip
            = Some (Inr (BufferType \<lparr>TypeName = name, ArgDir = d, IsOptional = fst (removeOpt a0)\<rparr>
                           (BufferString subkind
                              (map (\<lambda>s. s @ [CHR 0x00] @ replicate (n - Suc (length s)) (CHR 0x00))
                                 vals0)),
                         skip, desc))
          \<and> list_all (\<lambda>v. length v = n)
                (map (\<lambda>s. s @ [CHR 0x00] @ replicate (n - Suc (length s)) (CHR 0x00)) vals0))
     \<and> (vals0 \<noteq> [] \<and> n = Max (set (map (\<lambda>s. length (s @ [CHR 0x00])) vals0))
          \<and> fmtDir dir = Inr d \<and> \<not> isArg \<longrightarrow>
          generateArg parent name ''string'' dir a0 desc consts isArg isField skip
            = Some (Inr (BufferType \<lparr>TypeName = name, ArgDir = d, IsOptional = fst (removeOpt a0)\<rparr>
                           (BufferString subkind
                              (map (\<lambda>s. s @ [CHR 0x00] @ replicate (n - Suc (length s)) (CHR 0x00))
                                 vals0)),
                         skip, desc))
          \<and> list_all (\<lambda>v. length v = n)
                (map (\<lambda>s. s @ [CHR 0x00] @ replicate (n - Suc (length s)) (CHR 0x00)) vals0))"
proof -
  let ?run = "generateArg parent name ''string'' dir a0 desc consts isArg isField skip"
  let ?pad = "\<lambda>s. s @ [CHR 0x00] @ replicate (n - Suc (length s)) (CHR 0x00)"
  have run: "?run = Some (finishArg isArg name ''string'' skip desc
                (bindE (padVals name n (map (\<lambda>s. s @ [CHR 0x00]) vals0))
                   (\<lambda>vals'. bindE (common name dir (fst (removeOpt a0))) (\<lambda>c.
                      Inr (False, BufferType c (BufferString subkind vals'))))))"
    using assms by (simp add: generateArg_string arg_string_fixed)
  have long: "\<exists>s. s \<in> set vals0 \<and> n < length (s @ [CHR 0x00])
           \<and> ?run = Some (Inl (StringValueExceeds (s @ [CHR 0x00]) n name))"
    if "\<not> list_all (\<lambda>s. length (s @ [CHR 0x00]) \<le> n) vals0"
  proof -
    from that have "\<not> list_all (\<lambda>s. length s \<le> n) (map (\<lambda>s. s @ [CHR 0x00]) vals0)"
      by (simp add: list_all_iff)
    from padVals_fail [OF this, of name] obtain s' where
      s': "s' \<in> set (map (\<lambda>s. s @ [CHR 0x00]) vals0)" "n < length s'"
        "padVals name n (map (\<lambda>s. s @ [CHR 0x00]) vals0) = Inl (StringValueExceeds s' n name)"
      by blast
    then obtain s where "s \<in> set vals0" "s' = s @ [CHR 0x00]" by auto
    with s' show ?thesis
      unfolding run by (auto simp: finishArg_def bindE_def)
  qed
  have fits: "?run = Some (Inr (BufferType \<lparr>TypeName = name, ArgDir = d, IsOptional = fst (removeOpt a0)\<rparr>
                           (BufferString subkind (map ?pad vals0)), skip, desc))
          \<and> list_all (\<lambda>v. length v = n) (map ?pad vals0)"
    if ok: "list_all (\<lambda>s. length (s @ [CHR 0x00]) \<le> n) vals0" and d: "fmtDir dir = Inr d" and na: "\<not> isArg"
  proof -
    from ok have "list_all (\<lambda>s. length s \<le> n) (map (\<lambda>s. s @ [CHR 0x00]) vals0)"
      by (simp add: list_all_iff)
    from padVals_ok [OF this, of name]
    have "padVals name n (map (\<lambda>s. s @ [CHR 0x00]) vals0) = Inr (map ?pad vals0)"
      by simp
    then have "?run = Some (Inr (BufferType \<lparr>TypeName = name, ArgDir = d, IsOptional = fst (removeOpt a0)\<rparr>
                           (BufferString subkind (map ?pad vals0)), skip, desc))"
      using d na unfolding run by (simp add: finishArg_def bindE_def common_def)
    moreover from ok have "list_all (\<lambda>v. length v = n) (map ?pad vals0)"
      by (auto simp: list_all_iff)
    ultimately show ?thesis by blast
  qed
  have longest: "list_all (\<lambda>s. length (s @ [CHR 0x00]) \<le> n) vals0"
    if "vals0 \<noteq> []" "n = Max (set (map (\<lambda>s. length (s @ [CHR 0x00])) vals0))"
    using that by (auto simp: list_all_iff)
  show ?thesis
    using long fits longest by blast
qed

text \<open>
  The literal \<^verbatim>\<open>"ab"\<close> takes three bytes with its terminator: with the length 3 it is
  kept as it is, with the length 2 it is refused.
\<close>

theorem string_fixed_length_witness:
  "generateArg [] ''f'' ''string'' ''in'' [quoted ''ab'', ''3''] emptyDesc noConsts False True []
     = Some (Inr (BufferType \<lparr>TypeName = ''f'', ArgDir = DirIn, IsOptional = False\<rparr>
                    (BufferString [] [[CHR ''a'', CHR ''b'', CHR 0x00]]), [], emptyDesc))
   \<and> generateArg [] ''f'' ''string'' ''in'' [quoted ''ab'', ''2''] emptyDesc noConsts False True []
     = Some (Inl (StringValueExceeds [CHR ''a'', CHR ''b'', CHR 0x00] 2 ''f''))"
proof -
  have vals: "stringVals [quoted ''ab'', tok] emptyDesc = Inr ([''ab''], [])" for tok
    by (simp add: stringVals_def quoted_def)
  have n3: "stringSize ''f'' noConsts ''3'' = Inr 3"
    by (simp add: stringSize_def noConsts_def parseUint_def isDigit_def digitsVal_def digitVal_def)
  have n2: "stringSize ''f'' noConsts ''2'' = Inr 2"
    by (simp add: stringSize_def noConsts_def parseUint_def isDigit_def digitsVal_def digitVal_def)
  have d: "fmtDir ''in'' = Inr DirIn"
    by (simp add: fmtDir_def)
  from string_fixed_length [of "[quoted ''ab'', ''3'']" "[quoted ''ab'', ''3'']" emptyDesc "[''ab'']" "[]"
      "''f''" noConsts 3 "[]" "''in''" False True "[]" DirIn] vals n3 d
  have fits: "generateArg [] ''f'' ''string'' ''in'' [quoted ''ab'', ''3''] emptyDesc noConsts False True []
     = Some (Inr (BufferType \<lparr>TypeName = ''f'', ArgDir = DirIn, IsOptional = False\<rparr>
                    (BufferString [] [[CHR ''a'', CHR ''b'', CHR 0x00]]), [], emptyDesc))"
    by (simp add: quoted_def)
  from string_fixed_length [of "[quoted ''ab'', ''2'']" "[quoted ''ab'', ''2'']" emptyDesc "[''ab'']" "[]"
      "''f''" noConsts 2 "[]" "''in''" False True "[]" DirIn] vals n2
  have long: "generateArg [] ''f'' ''string'' ''in'' [quoted ''ab'', ''2''] emptyDesc noConsts False True []
     = Some (Inl (StringValueExceeds [CHR ''a'', CHR ''b'', CHR 0x00] 2 ''f''))"
    by (simp add: quoted_def)
  from fits long show ?thesis by blast
qed

subsection \<open>\<^verbatim>\<open>proc\<close>\<close>

lemma decodeIntType_int32: "decodeIntType ''int32'' = Inr (4, False)"
  by (simp add: decodeIntType_def hasSuffix_def parseInt_def isDigit_def digitsVal_def
        digitVal_def Let_def)

text \<open>
  C9. The two range checks of \<^verbatim>\<open>proc\<close> are computed on \<^verbatim>\<open>int64\<close>. The field
  \<^verbatim>\<open>proc[int32, 0, 576460752303423488]\<close> has the stride \<open>2 ^ 59\<close>: the product with 32 wraps
  around to 0, the second check passes, and the field compiles although the value of the
  last of the 32 instances does not fit 32 bits.
\<close>

theorem proc_stride_wraps:
  "generateArg ''s'' ''port'' ''proc'' ''in'' [''int32'', ''0'', ''576460752303423488'']
       emptyDesc noConsts False True []
     = Some (Inr (ProcType \<lparr>TypeName = ''port'', ArgDir = DirIn, IsOptional = False\<rparr>
                    4 False 0 576460752303423488,
                  [], emptyDesc))
   \<and> \<not> (0 + 32 * 576460752303423488 < (2::int) ^ (8 * 4))"
  by (simp add: generateArg_proc finishArg_def arg_proc_def bindE_def decodeIntType_int32
        parseInt_def isDigit_def digitsVal_def digitVal_def int64_def maxPids_def
        common_def fmtDir_def)

subsection \<open>Resources as arguments\<close>

text \<open>
  C10. A type name that reaches the resource case of the dispatch (it is no label of the
  \<^verbatim>\<open>switch\<close>, has no prefix \<^verbatim>\<open>unnamed\<close> and names no struct) and names a resource
  compiles to a reference to that resource when it has no parameters, also as a top-level
  argument or return value: the case returns before the check of \<^verbatim>\<open>canBeArg\<close>.
\<close>

theorem resource_top_level:
  assumes "typ \<notin> set switchLabels" and "\<not> hasPrefix typ ''unnamed''"
    and "map_of (Structs desc) typ = None" and "map_of (Resources desc) typ = Some res"
    and "snd (removeOpt a0) = []" and "fmtDir dir = Inr d"
  shows "generateArg parent name typ dir a0 desc consts True isField skip
           = Some (Inr (ResourceType \<lparr>TypeName = name, ArgDir = d,
                                       IsOptional = fst (removeOpt a0)\<rparr> typ,
                        skip, desc))"
  using assms by (simp add: generateArg_default common_def bindE_def)

theorem resource_top_level_witness:
  "generateArg [] ''fd'' ''fd'' ''in'' [''opt''] fdDesc noConsts True False []
     = Some (Inr (ResourceType \<lparr>TypeName = ''fd'', ArgDir = DirIn, IsOptional = True\<rparr> ''fd'',
                  [], fdDesc))"
proof -
  have "''fd'' \<notin> set switchLabels" by (simp add: switchLabels_def)
  moreover have "\<not> hasPrefix ''fd'' ''unnamed''" by (simp add: hasPrefix_def)
  moreover have "map_of (Structs fdDesc) ''fd'' = None" by (simp add: fdDesc_def)
  moreover have "map_of (Resources fdDesc) ''fd''
                   = Some \<lparr>Name = ''fd'', Base = ''int32'', Values = []\<rparr>"
    by (simp add: fdDesc_def)
  moreover have "snd (removeOpt [''opt'']) = []" by simp
  moreover have "fmtDir ''in'' = Inr DirIn" by (simp add: fmtDir_def)
  ultimately show ?thesis
    using resource_top_level [of "''fd''" fdDesc _ "[''opt'']" "''in''" DirIn "[]" "''fd''"
        noConsts False "[]"]
    by simp
qed

subsection \<open>Loops\<close>

lemma forEach_Inr_Cons:
  "forEach body (x # xs) st = Some (Inr (zs, st'')) \<longleftrightarrow>
     (\<exists>y st' ys. body x st = Some (Inr (y, st')) \<and> forEach body xs st' = Some (Inr (ys, st''))
        \<and> zs = y # ys)"
  by (auto simp: bindO_Inr split: prod.splits)

lemma forEach_length:
  "forEach body xs st = Some (Inr (ys, st')) \<Longrightarrow> length ys = length xs"
proof (induction xs arbitrary: st ys)
  case Nil
  then show ?case by simp
next
  case (Cons x xs)
  then show ?case by (auto simp: forEach_Inr_Cons simp del: forEach.simps)
qed

lemma forEach_invariant:
  assumes step: "\<And>x st y st'. x \<in> set xs \<Longrightarrow> I st \<Longrightarrow> body x st = Some (Inr (y, st')) \<Longrightarrow> I st'"
    and run: "forEach body xs st = Some (Inr (ys, st'))" and init: "I st"
  shows "I st'"
  using step run init
proof (induction xs arbitrary: st ys)
  case Nil
  then show ?case by simp
next
  case (Cons x xs)
  from Cons.prems(2) obtain y st1 ys' where
    x: "body x st = Some (Inr (y, st1))" and rest: "forEach body xs st1 = Some (Inr (ys', st'))"
    by (auto simp: forEach_Inr_Cons simp del: forEach.simps)
  have st1: "I st1" using Cons.prems(1) [of x st y st1] Cons.prems(3) x by simp
  have step': "\<And>x st y st'. x \<in> set xs \<Longrightarrow> I st \<Longrightarrow> body x st = Some (Inr (y, st')) \<Longrightarrow> I st'"
    using Cons.prems(1) by (meson list.set_intros(2))
  from Cons.IH [OF step' rest st1] show ?case .
qed

lemma forEach_nth:
  assumes step: "\<And>x st y st'. x \<in> set xs \<Longrightarrow> I st \<Longrightarrow> body x st = Some (Inr (y, st')) \<Longrightarrow> I st'"
    and run: "forEach body xs st = Some (Inr (ys, st'))" and init: "I st" and i: "i < length xs"
  shows "\<exists>sti sti'. I sti \<and> body (xs ! i) sti = Some (Inr (ys ! i, sti'))"
  using step run init i
proof (induction xs arbitrary: st ys i)
  case Nil
  then show ?case by simp
next
  case (Cons x xs)
  from Cons.prems(2) obtain y st1 ys' where
    x: "body x st = Some (Inr (y, st1))" and rest: "forEach body xs st1 = Some (Inr (ys', st'))"
    and ys: "ys = y # ys'"
    by (auto simp: forEach_Inr_Cons simp del: forEach.simps)
  show ?case
  proof (cases i)
    case 0
    with x ys Cons.prems(3) show ?thesis by auto
  next
    case (Suc j)
    have st1: "I st1" using Cons.prems(1) [of x st y st1] Cons.prems(3) x by simp
    have step': "\<And>x st y st'. x \<in> set xs \<Longrightarrow> I st \<Longrightarrow> body x st = Some (Inr (y, st')) \<Longrightarrow> I st'"
      using Cons.prems(1) by (meson list.set_intros(2))
    have j: "j < length xs" using Cons.prems(4) Suc by simp
    from Cons.IH [OF step' rest st1 j] Suc ys show ?thesis by simp
  qed
qed

subsection \<open>The flag \<^verbatim>\<open>skipCurrentSyscall\<close>\<close>

text \<open>
  \<^verbatim>\<open>skipSyscall\<close> writes the flag only when it is set already, so a flag that is empty
  stays empty through \<^verbatim>\<open>generateArg\<close>, whatever it compiles.
\<close>

lemma skipSyscall_empty: "skipSyscall [] why = []"
  by (simp add: skipSyscall_def)

lemma arg_const_skip:
  "arg_const name dir opt a consts isField [] = Inr (r, skip') \<Longrightarrow> skip' = []"
  by (auto simp: arg_const_def bindE_Inr skipSyscall_empty Let_def
      split: option.splits if_splits prod.splits)

lemma generateArg_skip_aux:
  "generateArg parent name typ dir a0 desc consts isArg isField skip = Some y \<Longrightarrow>
     (\<forall>t skip' desc'. y = Inr (t, skip', desc') \<longrightarrow> skip = [] \<longrightarrow> skip' = [])"
proof (induction rule: generateArg.raw_induct[rotated 1, consumes 1, case_names step])
  case (step f parent nm ty dr a0 desc cs isArg isField skip y)
  show ?case
  proof (intro allI impI)
    fix t skip' desc'
    assume y: "y = Inr (t, skip', desc')" and sk: "skip = []"
    note body = step(2)[unfolded Let_def]
    show "skip' = []"
      using body step(1) y sk
      apply (simp split: if_splits sum.splits option.splits prod.splits
               add: finishArg_Inr bindE_Inr bind_Some_iff)
      apply (auto dest!: arg_const_skip)
      done
  qed
qed

lemma generateArg_skip:
  "generateArg parent name typ dir a0 desc consts isArg isField [] = Some (Inr (t, skip', desc'))
     \<Longrightarrow> skip' = []"
  using generateArg_skip_aux by blast

lemma generateCallArg_skip:
  "generateCallArg consts a st = Some (Inr (t, st')) \<Longrightarrow> fst st = [] \<Longrightarrow> fst st' = []"
  by (cases st; cases st')
     (auto simp: generateCallArg_def split: if_splits dest: generateArg_skip)

lemma generateRet_skip:
  "generateRet consts ret st = Some (Inr (r, st')) \<Longrightarrow> fst st = [] \<Longrightarrow> fst st' = []"
  by (cases st; cases st')
     (auto simp: generateRet_def bindO_Inr split: if_splits dest: generateArg_skip)

lemma generateCall_Inr:
  assumes "generateCall consts s st = Some (Inr (c, st'))"
  obtains ret st1 args where
    "generateRet consts (Ret s) ([], snd st) = Some (Inr (ret, st1))"
    "forEach (generateCallArg consts) (Args s) st1 = Some (Inr (args, st'))"
    "c = Call (Name s) (CallName s) ret args
           (if fst st' \<noteq> [] then - 1
            else (case consts (''__NR_'' @ CallName s) of Some nr \<Rightarrow> sint nr | None \<Rightarrow> - 1))"
  using assms by (auto simp: generateCall_def Let_def bindO_Inr)

lemma generateCall_skip:
  assumes "generateCall consts s st = Some (Inr (c, st'))"
  shows "fst st' = []"
proof -
  from assms obtain ret st1 args where
    ret: "generateRet consts (Ret s) ([], snd st) = Some (Inr (ret, st1))" and
    args: "forEach (generateCallArg consts) (Args s) st1 = Some (Inr (args, st'))"
    by (rule generateCall_Inr)
  from generateRet_skip [OF ret] have "fst st1 = []" by simp
  with forEach_invariant [where I = "\<lambda>st. fst st = []", OF _ args]
  show ?thesis using generateCallArg_skip by blast
qed

subsection \<open>Calls\<close>

lemma isId: "isIdentifier ''MISSING_CMD''"
  by (simp add: isIdentifier_def isIdentChar_def enumerate_eq_zip upt_rec less_eq_char_def)

lemma fd_arg:
  "generateArg [] ''fd'' ''fd'' ''in'' [] (fdDesc\<lparr>Syscalls := ss\<rparr>) consts True False skip
     = Some (Inr (ResourceType \<lparr>TypeName = ''fd'', ArgDir = DirIn, IsOptional = False\<rparr> ''fd'',
                  skip, fdDesc\<lparr>Syscalls := ss\<rparr>))"
  by (subst generateArg_default)
     (simp_all add: switchLabels_def hasPrefix_def fdDesc_def common_def fmtDir_def bindE_def)

lemma look: "ioctlConsts ''MISSING_CMD'' = None"
  by (simp add: ioctlConsts_def)

lemma cmd_arg0:
  "arg_const ''cmd'' ''in'' False [''MISSING_CMD''] ioctlConsts False []
     = Inr ((True, ConstType \<lparr>TypeName = ''cmd'', ArgDir = DirIn, IsOptional = False\<rparr> 8 False ''0''), [])"
  by (simp add: arg_const_def bindE_def look isId skipSyscall_def common_def fmtDir_def ptrSize_def)

lemma cmd_arg:
  "generateArg [] ''cmd'' ''const'' ''in'' [''MISSING_CMD''] desc ioctlConsts True False []
     = Some (Inr (ConstType \<lparr>TypeName = ''cmd'', ArgDir = DirIn, IsOptional = False\<rparr> 8 False ''0'',
                  [], desc))"
  by (simp add: generateArg_const cmd_arg0 bindE_def finishArg_def)

lemma ioctl_run:
  "generateCall ioctlConsts ioctlCall ([], fdDesc) =
     Some (Inr (Call ''ioctl$x'' ''ioctl'' None
                  [ResourceType \<lparr>TypeName = ''fd'', ArgDir = DirIn, IsOptional = False\<rparr> ''fd'',
                   ConstType \<lparr>TypeName = ''cmd'', ArgDir = DirIn, IsOptional = False\<rparr> 8 False ''0'']
                  16,
                ([], fdDesc)))"
proof -
  have fd: "generateCallArg ioctlConsts [''fd'', ''fd''] ([], fdDesc)
     = Some (Inr (ResourceType \<lparr>TypeName = ''fd'', ArgDir = DirIn, IsOptional = False\<rparr> ''fd'',
                  [], fdDesc))"
    using fd_arg [of "[]" ioctlConsts "[]"] by (simp add: generateCallArg_def fdDesc_def)
  have cmd: "generateCallArg ioctlConsts [''cmd'', ''const'', ''MISSING_CMD''] ([], fdDesc)
     = Some (Inr (ConstType \<lparr>TypeName = ''cmd'', ArgDir = DirIn, IsOptional = False\<rparr> 8 False ''0'',
                  [], fdDesc))"
    by (simp add: generateCallArg_def cmd_arg)
  have nr: "ioctlConsts ''__NR_ioctl'' = Some 16"
    by (simp add: ioctlConsts_def)
  show ?thesis
    by (simp add: generateCall_def ioctlCall_def generateRet_def bindO_def fd cmd nr)
qed

text \<open>
  C1. A call is compiled with the flag reset to empty. When an argument is a \<^verbatim>\<open>const\<close>
  whose value is an identifier without a constant in the table, the node of that argument
  has the value 0, the flag is still empty after the call, and the number of the call is
  the one the table gives for its \<^verbatim>\<open>CallName\<close> (the sentinel only when the table has
  none): the missing constant does not make the call unavailable.
\<close>

theorem unresolved_const_keeps_number:
  assumes run: "generateCall consts s st = Some (Inr (c, st'))"
    and i: "i < length (Args s)"
    and ty: "Args s ! i ! 1 = ''const''"
    and par: "snd (removeOpt (drop 2 (Args s ! i))) = [v]"
    and v: "consts v = None" "isIdentifier v"
  shows "call_Args c ! i =
           ConstType \<lparr>TypeName = Args s ! i ! 0, ArgDir = DirIn,
                      IsOptional = fst (removeOpt (drop 2 (Args s ! i)))\<rparr> ptrSize False ''0''
       \<and> call_NR c = (case consts (''__NR_'' @ CallName s) of Some nr \<Rightarrow> sint nr | None \<Rightarrow> - 1)
       \<and> fst st' = []
       \<and> (\<forall>why. skipSyscall [] why = [])"
proof -
  from run obtain ret st1 args where
    ret: "generateRet consts (Ret s) ([], snd st) = Some (Inr (ret, st1))" and
    args: "forEach (generateCallArg consts) (Args s) st1 = Some (Inr (args, st'))" and
    c: "c = Call (Name s) (CallName s) ret args
           (if fst st' \<noteq> [] then - 1
            else (case consts (''__NR_'' @ CallName s) of Some nr \<Rightarrow> sint nr | None \<Rightarrow> - 1))"
    by (rule generateCall_Inr)
  have st': "fst st' = []" using run by (rule generateCall_skip)
  from generateRet_skip [OF ret] have st1: "fst st1 = []" by simp
  have "\<exists>sti sti'. fst sti = []
          \<and> generateCallArg consts (Args s ! i) sti = Some (Inr (args ! i, sti'))"
    by (rule forEach_nth [where I = "\<lambda>st. fst st = []", OF _ args st1 i])
       (auto dest: generateCallArg_skip)
  then obtain sti sti' where sti: "fst sti = []"
    and arg: "generateCallArg consts (Args s ! i) sti = Some (Inr (args ! i, sti'))"
    by blast
  obtain desci where desci: "sti = ([], desci)" using sti by (cases sti) simp
  from arg ty have "generateArg [] (Args s ! i ! 0) ''const'' ''in'' (drop 2 (Args s ! i)) desci
                      consts True False [] = Some (Inr (args ! i, sti'))"
    by (simp add: generateCallArg_def desci split: if_splits)
  then have "args ! i = ConstType \<lparr>TypeName = Args s ! i ! 0, ArgDir = DirIn,
                      IsOptional = fst (removeOpt (drop 2 (Args s ! i)))\<rparr> ptrSize False ''0''"
    using par v
    by (cases sti')
       (auto simp: generateArg_const arg_const_def bindE_Inr finishArg_Inr common_def fmtDir_def
          Let_def split: prod.splits)
  with c st' show ?thesis by (simp add: skipSyscall_empty)
qed

theorem unresolved_const_keeps_number_witness:
  "generateCall ioctlConsts ioctlCall ([], fdDesc) =
     Some (Inr (Call ''ioctl$x'' ''ioctl'' None
                  [ResourceType \<lparr>TypeName = ''fd'', ArgDir = DirIn, IsOptional = False\<rparr> ''fd'',
                   ConstType \<lparr>TypeName = ''cmd'', ArgDir = DirIn, IsOptional = False\<rparr> 8 False ''0'']
                  16,
                ([], fdDesc)))
   \<and> 1 < length (Args ioctlCall) \<and> Args ioctlCall ! 1 ! 1 = ''const''
   \<and> snd (removeOpt (drop 2 (Args ioctlCall ! 1))) = [''MISSING_CMD'']
   \<and> ioctlConsts ''MISSING_CMD'' = None \<and> isIdentifier ''MISSING_CMD''
   \<and> call_Args (Call ''ioctl$x'' ''ioctl'' None
                  [ResourceType \<lparr>TypeName = ''fd'', ArgDir = DirIn, IsOptional = False\<rparr> ''fd'',
                   ConstType \<lparr>TypeName = ''cmd'', ArgDir = DirIn, IsOptional = False\<rparr> 8 False ''0'']
                  16) ! 1
       = ConstType \<lparr>TypeName = ''cmd'', ArgDir = DirIn, IsOptional = False\<rparr> 8 False ''0''
   \<and> call_NR (Call ''ioctl$x'' ''ioctl'' None
                  [ResourceType \<lparr>TypeName = ''fd'', ArgDir = DirIn, IsOptional = False\<rparr> ''fd'',
                   ConstType \<lparr>TypeName = ''cmd'', ArgDir = DirIn, IsOptional = False\<rparr> 8 False ''0'']
                  16)
       = (case ioctlConsts (''__NR_'' @ CallName ioctlCall) of Some nr \<Rightarrow> sint nr | None \<Rightarrow> - 1)"
proof -
  have i: "1 < length (Args ioctlCall)" and ty: "Args ioctlCall ! 1 ! 1 = ''const''"
    and par: "snd (removeOpt (drop 2 (Args ioctlCall ! 1))) = [''MISSING_CMD'']"
    by (simp_all add: ioctlCall_def)
  from unresolved_const_keeps_number [OF ioctl_run i ty par look isId] ioctl_run i ty par look isId
  show ?thesis by (simp add: ioctlCall_def ptrSize_def)
qed

lemma generateCall_unavailable:
  assumes nr: "consts (''__NR_'' @ CallName s) = None"
    and run: "generateCall consts s st = Some (Inr (c, st'))"
  shows "call_Name c = Name s \<and> call_CallName c = CallName s \<and> call_NR c = - 1
       \<and> length (call_Args c) = length (Args s)
       \<and> (\<forall>i < length (Args s). \<exists>sti sti'.
             generateCallArg consts (Args s ! i) sti = Some (Inr (call_Args c ! i, sti')))
       \<and> (Ret s = [] \<longrightarrow> call_Ret c = None)
       \<and> (Ret s \<noteq> [] \<longrightarrow> (\<exists>t st1. call_Ret c = Some t
             \<and> generateArg [] ''ret'' (Ret s ! 0) ''out'' (tl (Ret s)) (snd st) consts True False []
                 = Some (Inr (t, st1))))"
proof -
  from run obtain ret st1 args where
    ret: "generateRet consts (Ret s) ([], snd st) = Some (Inr (ret, st1))" and
    args: "forEach (generateCallArg consts) (Args s) st1 = Some (Inr (args, st'))" and
    c: "c = Call (Name s) (CallName s) ret args
           (if fst st' \<noteq> [] then - 1
            else (case consts (''__NR_'' @ CallName s) of Some nr \<Rightarrow> sint nr | None \<Rightarrow> - 1))"
    by (rule generateCall_Inr)
  have len: "length args = length (Args s)"
    using args by (rule forEach_length)
  have nth: "\<exists>sti sti'. generateCallArg consts (Args s ! i) sti = Some (Inr (args ! i, sti'))"
    if "i < length (Args s)" for i
    using forEach_nth [where I = "\<lambda>st. True", OF _ args _ that] by simp
  have r0: "ret = None" if "Ret s = []"
    using ret that by (simp add: generateRet_def)
  have r1: "\<exists>t st1. ret = Some t
             \<and> generateArg [] ''ret'' (Ret s ! 0) ''out'' (tl (Ret s)) (snd st) consts True False []
                 = Some (Inr (t, st1))" if "Ret s \<noteq> []"
    using ret that by (auto simp: generateRet_def bindO_Inr)
  show ?thesis
    using c nr len nth r0 r1 by simp
qed


lemma generate_calls:
  assumes "generate order1 order2 desc consts skip = Some (Inr ((resources, structs, calls), st'))"
  obtains st2 where "forEach (generateCall consts) (Syscalls desc) st2 = Some (Inr (calls, st'))"
  using assms by (auto simp: generate_def bindO_Inr)

lemma fd_resource:
  "generateResource consts \<lparr>Name = ''fd'', Base = ''int32'', Values = []\<rparr> (skip, desc)
     = Some (Inr (ResourceDesc ''fd''
                    (IntType \<lparr>TypeName = ''resource-type'', ArgDir = DirInOut, IsOptional = False\<rparr>
                       4 False IntPlain)
                    [''fd''] [''0''], (skip, desc)))"
  by (simp add: generateResource_def resourceLoop.simps intKinds_def bindO_def generateArg_int
        arg_int_def decodeIntType_int32 bindE_def common_def fmtDir_def finishArg_def)

lemma read_resources:
  "generateResources consts (skip, readDesc)
     = Some (Inr ([ResourceDesc ''fd''
                    (IntType \<lparr>TypeName = ''resource-type'', ArgDir = DirInOut, IsOptional = False\<rparr>
                       4 False IntPlain)
                    [''fd''] [''0'']], (skip, readDesc)))"
  by (simp add: generateResources_def readDesc_def fdDesc_def fd_resource bindO_def)

lemma read_structs:
  "generateStructs [] [] consts (skip, readDesc) = Some (Inr (([], []), (skip, readDesc)))"
  by (simp add: generateStructs_def makeStructMap_def readDesc_def fdDesc_def bindO_def)

lemma decodeIntType_intptr: "decodeIntType ''intptr'' = Inr (8, False)"
  by (simp add: decodeIntType_def hasSuffix_def ptrSize_def Let_def)

lemma read_call:
  "generateCall noConsts readCall (skip, readDesc) =
     Some (Inr (Call ''read$variant'' ''read''
                  (Some (IntType \<lparr>TypeName = ''ret'', ArgDir = DirOut, IsOptional = False\<rparr>
                           8 False IntPlain))
                  [ResourceType \<lparr>TypeName = ''fd'', ArgDir = DirIn, IsOptional = False\<rparr> ''fd'',
                   PtrType \<lparr>TypeName = ''buf'', ArgDir = DirIn, IsOptional = False\<rparr>
                     (BufferType \<lparr>TypeName = ''buf'', ArgDir = DirOut, IsOptional = False\<rparr>
                        BufferBlobRand),
                   LenType \<lparr>TypeName = ''count'', ArgDir = DirIn, IsOptional = False\<rparr>
                     ''buf'' 8 False 0]
                  (- 1),
                ([], readDesc)))"
proof -
  have ret: "generateRet noConsts [''intptr''] ([], readDesc)
     = Some (Inr (Some (IntType \<lparr>TypeName = ''ret'', ArgDir = DirOut, IsOptional = False\<rparr>
                           8 False IntPlain), ([], readDesc)))"
    by (simp add: generateRet_def generateArg_int arg_int_def decodeIntType_intptr bindE_def
          common_def fmtDir_def finishArg_def bindO_def)
  have fd: "generateCallArg noConsts [''fd'', ''fd''] ([], readDesc)
     = Some (Inr (ResourceType \<lparr>TypeName = ''fd'', ArgDir = DirIn, IsOptional = False\<rparr> ''fd'',
                  [], readDesc))"
    using fd_arg [of "[readCall]" noConsts "[]"] by (simp add: generateCallArg_def readDesc_def)
  have buf: "generateCallArg noConsts [''buf'', ''buffer'', ''out''] ([], readDesc)
     = Some (Inr (PtrType \<lparr>TypeName = ''buf'', ArgDir = DirIn, IsOptional = False\<rparr>
                     (BufferType \<lparr>TypeName = ''buf'', ArgDir = DirOut, IsOptional = False\<rparr>
                        BufferBlobRand), [], readDesc))"
    by (simp add: generateCallArg_def generateArg_buffer arg_buffer_def bindE_def
          common_def fmtDir_def finishArg_def)
  have count: "generateCallArg noConsts [''count'', ''len'', ''buf''] ([], readDesc)
     = Some (Inr (LenType \<lparr>TypeName = ''count'', ArgDir = DirIn, IsOptional = False\<rparr>
                     ''buf'' 8 False 0, [], readDesc))"
    by (simp add: generateCallArg_def generateArg_len arg_len_def bindE_def
          common_def fmtDir_def finishArg_def ptrSize_def)
  have nr: "noConsts ''__NR_read'' = None"
    by (simp add: noConsts_def)
  show ?thesis
    by (simp add: generateCall_def readCall_def bindO_def ret fd buf count nr)
qed

lemma read_generate:
  "generate [] [] readDesc noConsts [] =
     Some (Inr (([ResourceDesc ''fd''
                    (IntType \<lparr>TypeName = ''resource-type'', ArgDir = DirInOut, IsOptional = False\<rparr>
                       4 False IntPlain)
                    [''fd''] [''0'']],
                 ([], []),
                 [Call ''read$variant'' ''read''
                  (Some (IntType \<lparr>TypeName = ''ret'', ArgDir = DirOut, IsOptional = False\<rparr>
                           8 False IntPlain))
                  [ResourceType \<lparr>TypeName = ''fd'', ArgDir = DirIn, IsOptional = False\<rparr> ''fd'',
                   PtrType \<lparr>TypeName = ''buf'', ArgDir = DirIn, IsOptional = False\<rparr>
                     (BufferType \<lparr>TypeName = ''buf'', ArgDir = DirOut, IsOptional = False\<rparr>
                        BufferBlobRand),
                   LenType \<lparr>TypeName = ''count'', ArgDir = DirIn, IsOptional = False\<rparr>
                     ''buf'' 8 False 0]
                  (- 1)]),
                ([], readDesc)))"
proof -
  have sys: "Syscalls readDesc = [readCall]"
    by (simp add: readDesc_def)
  show ?thesis
    by (simp add: generate_def read_resources read_structs sys read_call bindO_def)
qed

text \<open>
  C8. When the table has no number for the \<^verbatim>\<open>CallName\<close> of a call, a run of \<^verbatim>\<open>generate\<close>
  that succeeds still prints a descriptor for it, at the place of the call in the list:
  with the number \<open>- 1\<close>, with the return type compiled when one is declared, and with one
  compiled node for each argument, in the order of the declaration.
\<close>

theorem unavailable_call_emitted:
  assumes run: "generate order1 order2 desc consts skip
                  = Some (Inr ((resources, structs, calls), st'))"
    and j: "j < length (Syscalls desc)"
    and nr: "consts (''__NR_'' @ CallName (Syscalls desc ! j)) = None"
  shows "length calls = length (Syscalls desc)
       \<and> call_Name (calls ! j) = Name (Syscalls desc ! j)
       \<and> call_CallName (calls ! j) = CallName (Syscalls desc ! j)
       \<and> call_NR (calls ! j) = - 1
       \<and> length (call_Args (calls ! j)) = length (Args (Syscalls desc ! j))
       \<and> (\<forall>i < length (Args (Syscalls desc ! j)). \<exists>sti sti'.
             generateCallArg consts (Args (Syscalls desc ! j) ! i) sti
               = Some (Inr (call_Args (calls ! j) ! i, sti')))
       \<and> (Ret (Syscalls desc ! j) = [] \<longrightarrow> call_Ret (calls ! j) = None)
       \<and> (Ret (Syscalls desc ! j) \<noteq> [] \<longrightarrow> (\<exists>t desc1 st1. call_Ret (calls ! j) = Some t
             \<and> generateArg [] ''ret'' (Ret (Syscalls desc ! j) ! 0) ''out''
                  (tl (Ret (Syscalls desc ! j))) desc1 consts True False []
                 = Some (Inr (t, st1))))"
proof -
  from run obtain st2 where
    loop: "forEach (generateCall consts) (Syscalls desc) st2 = Some (Inr (calls, st'))"
    by (rule generate_calls)
  have len: "length calls = length (Syscalls desc)"
    using loop by (rule forEach_length)
  from forEach_nth [where I = "\<lambda>st. True", OF _ loop _ j]
  obtain stj stj' where
    call: "generateCall consts (Syscalls desc ! j) stj = Some (Inr (calls ! j, stj'))"
    by auto
  from generateCall_unavailable [OF nr call] len show ?thesis
    by blast
qed

theorem unavailable_call_emitted_witness:
  "generate [] [] readDesc noConsts [] =
     Some (Inr (([ResourceDesc ''fd''
                    (IntType \<lparr>TypeName = ''resource-type'', ArgDir = DirInOut, IsOptional = False\<rparr>
                       4 False IntPlain)
                    [''fd''] [''0'']],
                 ([], []),
                 [Call ''read$variant'' ''read''
                  (Some (IntType \<lparr>TypeName = ''ret'', ArgDir = DirOut, IsOptional = False\<rparr>
                           8 False IntPlain))
                  [ResourceType \<lparr>TypeName = ''fd'', ArgDir = DirIn, IsOptional = False\<rparr> ''fd'',
                   PtrType \<lparr>TypeName = ''buf'', ArgDir = DirIn, IsOptional = False\<rparr>
                     (BufferType \<lparr>TypeName = ''buf'', ArgDir = DirOut, IsOptional = False\<rparr>
                        BufferBlobRand),
                   LenType \<lparr>TypeName = ''count'', ArgDir = DirIn, IsOptional = False\<rparr>
                     ''buf'' 8 False 0]
                  (- 1)]),
                ([], readDesc)))
   \<and> 0 < length (Syscalls readDesc)
   \<and> noConsts (''__NR_'' @ CallName (Syscalls readDesc ! 0)) = None
   \<and> length [Call ''read$variant'' ''read''
                  (Some (IntType \<lparr>TypeName = ''ret'', ArgDir = DirOut, IsOptional = False\<rparr>
                           8 False IntPlain))
                  [ResourceType \<lparr>TypeName = ''fd'', ArgDir = DirIn, IsOptional = False\<rparr> ''fd'',
                   PtrType \<lparr>TypeName = ''buf'', ArgDir = DirIn, IsOptional = False\<rparr>
                     (BufferType \<lparr>TypeName = ''buf'', ArgDir = DirOut, IsOptional = False\<rparr>
                        BufferBlobRand),
                   LenType \<lparr>TypeName = ''count'', ArgDir = DirIn, IsOptional = False\<rparr>
                     ''buf'' 8 False 0]
                  (- 1)] = length (Syscalls readDesc)
   \<and> call_NR ([Call ''read$variant'' ''read''
                  (Some (IntType \<lparr>TypeName = ''ret'', ArgDir = DirOut, IsOptional = False\<rparr>
                           8 False IntPlain))
                  [ResourceType \<lparr>TypeName = ''fd'', ArgDir = DirIn, IsOptional = False\<rparr> ''fd'',
                   PtrType \<lparr>TypeName = ''buf'', ArgDir = DirIn, IsOptional = False\<rparr>
                     (BufferType \<lparr>TypeName = ''buf'', ArgDir = DirOut, IsOptional = False\<rparr>
                        BufferBlobRand),
                   LenType \<lparr>TypeName = ''count'', ArgDir = DirIn, IsOptional = False\<rparr>
                     ''buf'' 8 False 0]
                  (- 1)] ! 0) = - 1
   \<and> length (call_Args ([Call ''read$variant'' ''read''
                  (Some (IntType \<lparr>TypeName = ''ret'', ArgDir = DirOut, IsOptional = False\<rparr>
                           8 False IntPlain))
                  [ResourceType \<lparr>TypeName = ''fd'', ArgDir = DirIn, IsOptional = False\<rparr> ''fd'',
                   PtrType \<lparr>TypeName = ''buf'', ArgDir = DirIn, IsOptional = False\<rparr>
                     (BufferType \<lparr>TypeName = ''buf'', ArgDir = DirOut, IsOptional = False\<rparr>
                        BufferBlobRand),
                   LenType \<lparr>TypeName = ''count'', ArgDir = DirIn, IsOptional = False\<rparr>
                     ''buf'' 8 False 0]
                  (- 1)] ! 0)) = length (Args (Syscalls readDesc ! 0))"
proof -
  have j: "0 < length (Syscalls readDesc)"
    by (simp add: readDesc_def)
  have nr: "noConsts (''__NR_'' @ CallName (Syscalls readDesc ! 0)) = None"
    by (simp add: noConsts_def)
  from unavailable_call_emitted [OF read_generate j nr] read_generate j nr
  show ?thesis by simp
qed

subsection \<open>The resolution of a resource\<close>

lemma resourceLoop_returns:
  "chainEnds desc n res \<Longrightarrow> \<exists>r. resourceLoop desc consts name res kind vals = Some r"
proof (induction n arbitrary: res kind vals)
  case 0
  then show ?case
    by (subst resourceLoop.simps) (auto simp: Let_def)
next
  case (Suc n)
  then obtain res' where res': "map_of (Resources desc) (Base res) = Some res'"
    and ends: "chainEnds desc n res'" and base: "Base res \<notin> set intKinds"
    by (auto split: option.splits)
  from Suc.IH [OF ends] obtain r where
    "resourceLoop desc consts name res' (Base res # kind)
       (resourceValues consts (Values res) @ vals) = Some r"
    by blast
  then show ?case
    using res' base by (subst resourceLoop.simps) (simp add: Let_def)
qed

lemma resourceLoop_ends:
  "resourceLoop desc consts name res kind values = Some y \<Longrightarrow> \<exists>n. chainEnds desc n res"
proof (induction rule: resourceLoop.raw_induct[rotated 1, consumes 1, case_names step])
  case (step f desc cs nm res kind vals y)
  show ?case
  proof (cases "Base res \<in> set intKinds \<or> map_of (Resources desc) (Base res) = None")
    case True
    then have "chainEnds desc 0 res" by simp
    then show ?thesis ..
  next
    case False
    then obtain res' where res': "map_of (Resources desc) (Base res) = Some res'"
      and base: "Base res \<notin> set intKinds"
      by auto
    with step(2) have "f desc cs nm res' (Base res # kind)
        (resourceValues cs (Values res) @ vals) = Some y"
      by (simp add: Let_def)
    from step(1) [OF this] obtain n where "chainEnds desc n res'" ..
    with res' base have "chainEnds desc (Suc n) res" by simp
    then show ?thesis ..
  qed
qed

lemma self_never_ends: "\<not> chainEnds selfDesc n \<lparr>Name = ''A'', Base = ''A'', Values = []\<rparr>"
  by (induction n) (simp_all add: selfDesc_def intKinds_def)

lemma cycle_never_ends:
  "\<not> chainEnds cycleDesc n \<lparr>Name = ''A'', Base = ''B'', Values = []\<rparr>
   \<and> \<not> chainEnds cycleDesc n \<lparr>Name = ''B'', Base = ''A'', Values = []\<rparr>"
  by (induction n) (simp_all add: cycleDesc_def intKinds_def)

text \<open>
  C4. The loop of \<^verbatim>\<open>generateResources\<close> has no guard against a cycle: it leaves only at
  a primitive base or at an unknown one. For a resource that is its own base, and for two
  resources that are each other's base, the resolution never returns; it does not fail.
\<close>

theorem resource_cycle_counterexample:
  "generateResource noConsts \<lparr>Name = ''A'', Base = ''A'', Values = []\<rparr> ([], selfDesc) = None
   \<and> generateResource noConsts \<lparr>Name = ''A'', Base = ''B'', Values = []\<rparr> ([], cycleDesc) = None"
proof -
  have "resourceLoop selfDesc noConsts ''A'' \<lparr>Name = ''A'', Base = ''A'', Values = []\<rparr> [''A''] []
          = None"
    using resourceLoop_ends self_never_ends by (metis not_Some_eq)
  moreover have "resourceLoop cycleDesc noConsts ''A'' \<lparr>Name = ''A'', Base = ''B'', Values = []\<rparr>
          [''A''] [] = None"
    using resourceLoop_ends cycle_never_ends by (metis not_Some_eq)
  ultimately show ?thesis
    by (simp add: generateResource_def bindO_def)
qed

text \<open>
  C4, as amended: the resolution of a resource returns exactly when its chain of bases
  ends after finitely many hops, at a primitive integer kind or at a name that is neither
  primitive nor a known resource; in the latter case, when it is the base of the resource
  itself, the result is the fatal error that names the unknown parent. On a cycle the chain
  never ends and the resolution does not return, as for a resource whose base is itself.
\<close>

theorem resource_loop_returns_iff:
  "(resourceLoop desc consts name res kind values \<noteq> None \<longleftrightarrow> (\<exists>n. chainEnds desc n res))
   \<and> (Base res \<notin> set intKinds \<and> map_of (Resources desc) (Base res) = None \<longrightarrow>
        resourceLoop desc consts name res kind values
          = Some (Inl (UnknownParentResource name (Base res))))
   \<and> (Base res \<notin> set intKinds \<and> map_of (Resources desc) (Base res) = Some res \<longrightarrow>
        resourceLoop desc consts name res kind values = None)"
proof -
  have iff: "resourceLoop desc consts name res kind values \<noteq> None \<longleftrightarrow> (\<exists>n. chainEnds desc n res)"
    using resourceLoop_returns resourceLoop_ends by (metis not_Some_eq option.distinct(1))
  have unknown: "resourceLoop desc consts name res kind values
          = Some (Inl (UnknownParentResource name (Base res)))"
    if "Base res \<notin> set intKinds" "map_of (Resources desc) (Base res) = None"
    using that by (subst resourceLoop.simps) (simp add: Let_def)
  have self: "resourceLoop desc consts name res kind values = None"
    if base: "Base res \<notin> set intKinds" and res: "map_of (Resources desc) (Base res) = Some res"
  proof -
    have "\<not> chainEnds desc n res" for n
      by (induction n) (simp_all add: base res)
    with iff show ?thesis by simp
  qed
  show ?thesis using iff unknown self by blast
qed

theorem resource_loop_returns_iff_witness:
  "resourceLoop fdDesc noConsts ''fd'' \<lparr>Name = ''fd'', Base = ''int32'', Values = []\<rparr> [''fd''] []
     \<noteq> None
   \<and> resourceLoop orphanDesc noConsts ''A'' \<lparr>Name = ''A'', Base = ''nobody'', Values = []\<rparr>
         [''A''] []
       = Some (Inl (UnknownParentResource ''A'' ''nobody''))
   \<and> resourceLoop selfDesc noConsts ''A'' \<lparr>Name = ''A'', Base = ''A'', Values = []\<rparr> [''A''] []
       = None"
proof -
  have fd: "resourceLoop fdDesc noConsts ''fd'' \<lparr>Name = ''fd'', Base = ''int32'', Values = []\<rparr>
              [''fd''] [] \<noteq> None"
    by (rule iffD2 [OF conjunct1 [OF resource_loop_returns_iff]])
       (rule exI [of _ 0], simp add: intKinds_def)
  have orphan: "resourceLoop orphanDesc noConsts ''A'' \<lparr>Name = ''A'', Base = ''nobody'', Values = []\<rparr>
         [''A''] []
       = Some (Inl (UnknownParentResource ''A'' ''nobody''))"
    using resource_loop_returns_iff [of orphanDesc noConsts "''A''"
        "\<lparr>Name = ''A'', Base = ''nobody'', Values = []\<rparr>" "[''A'']" "[]"]
    by (simp add: orphanDesc_def intKinds_def)
  have self: "resourceLoop selfDesc noConsts ''A'' \<lparr>Name = ''A'', Base = ''A'', Values = []\<rparr>
                [''A''] [] = None"
    using resource_loop_returns_iff [of selfDesc noConsts "''A''"
        "\<lparr>Name = ''A'', Base = ''A'', Values = []\<rparr>" "[''A'']" "[]"]
    by (simp add: selfDesc_def intKinds_def)
  from fd orphan self show ?thesis by simp
qed

lemma baseChain_shape:
  "baseChain desc n res = Some rs \<Longrightarrow>
     rs \<noteq> [] \<and> length rs = Suc n \<and> hd rs = res \<and> Base (last rs) \<in> set intKinds"
proof (induction n arbitrary: res rs)
  case 0
  then show ?case by (auto split: if_splits)
next
  case (Suc n)
  then obtain res' rs' where res': "map_of (Resources desc) (Base res) = Some res'"
    and rs': "baseChain desc n res' = Some rs'" and rs: "rs = res # rs'"
    by (auto split: if_splits option.splits)
  from Suc.IH [OF rs'] rs show ?case by simp
qed

lemma resourceLoop_chain:
  "baseChain desc n res = Some rs \<Longrightarrow>
   resourceLoop desc consts name res kind vals =
     Some (Inr (Base (last rs), rev (map Base (butlast rs)) @ kind,
                concat (map (\<lambda>r. resourceValues consts (Values r)) (rev rs)) @ vals))"
proof (induction n arbitrary: res rs kind vals)
  case 0
  then show ?case
    by (subst resourceLoop.simps) (auto simp: Let_def split: if_splits)
next
  case (Suc n)
  then obtain res' rs' where res': "map_of (Resources desc) (Base res) = Some res'"
    and rs': "baseChain desc n res' = Some rs'" and rs: "rs = res # rs'"
    and base: "Base res \<notin> set intKinds"
    by (auto split: if_splits option.splits)
  from baseChain_shape [OF rs'] have ne: "rs' \<noteq> []" by simp
  have "resourceLoop desc consts name res kind vals =
          resourceLoop desc consts name res' (Base res # kind)
            (resourceValues consts (Values res) @ vals)"
    using res' base by (subst resourceLoop.simps) (simp add: Let_def)
  also have "\<dots> = Some (Inr (Base (last rs'), rev (map Base (butlast rs')) @ Base res # kind,
                concat (map (\<lambda>r. resourceValues consts (Values r)) (rev rs'))
                  @ resourceValues consts (Values res) @ vals))"
    by (rule Suc.IH [OF rs'])
  finally show ?case
    using ne rs by simp
qed

lemma decodeIntType_int8: "decodeIntType ''int8'' = Inr (1, False)"
  by (simp add: decodeIntType_def hasSuffix_def parseInt_def isDigit_def digitsVal_def
        digitVal_def Let_def)

lemma decodeIntType_int16: "decodeIntType ''int16'' = Inr (2, False)"
  by (simp add: decodeIntType_def hasSuffix_def parseInt_def isDigit_def digitsVal_def
        digitVal_def Let_def)

lemma decodeIntType_int64: "decodeIntType ''int64'' = Inr (8, False)"
  by (simp add: decodeIntType_def hasSuffix_def parseInt_def isDigit_def digitsVal_def
        digitVal_def Let_def)

lemma generateArg_plain_int:
  assumes "decodeIntType underlying = Inr (sz, False)"
    and "generateArg parent name underlying ''inout'' [] desc consts True True skip
      = Some (finishArg True name underlying skip desc
                (arg_int underlying name ''inout'' (fst (removeOpt [])) (snd (removeOpt [])) consts))"
  shows "generateArg parent name underlying ''inout'' [] desc consts True True skip
              = Some (Inr (IntType \<lparr>TypeName = name, ArgDir = DirInOut, IsOptional = False\<rparr>
                             sz False IntPlain, skip, desc))"
  using assms by (simp add: arg_int_def bindE_def common_def fmtDir_def finishArg_def)

lemma generateArg_intKind:
  assumes "underlying \<in> set intKinds"
  shows "\<exists>sz. decodeIntType underlying = Inr (sz, False)
          \<and> generateArg parent name underlying ''inout'' [] desc consts True True skip
              = Some (Inr (IntType \<lparr>TypeName = name, ArgDir = DirInOut, IsOptional = False\<rparr>
                             sz False IntPlain, skip, desc))"
proof -
  from assms consider "underlying = ''int8''" | "underlying = ''int16''" | "underlying = ''int32''"
    | "underlying = ''int64''" | "underlying = ''intptr''"
    by (auto simp: intKinds_def)
  then show ?thesis
  proof cases
    case 1
    show ?thesis unfolding 1
      by (intro exI conjI, rule decodeIntType_int8,
          rule generateArg_plain_int [OF decodeIntType_int8], rule generateArg_int, simp)
  next
    case 2
    show ?thesis unfolding 2
      by (intro exI conjI, rule decodeIntType_int16,
          rule generateArg_plain_int [OF decodeIntType_int16], rule generateArg_int, simp)
  next
    case 3
    show ?thesis unfolding 3
      by (intro exI conjI, rule decodeIntType_int32,
          rule generateArg_plain_int [OF decodeIntType_int32], rule generateArg_int, simp)
  next
    case 4
    show ?thesis unfolding 4
      by (intro exI conjI, rule decodeIntType_int64,
          rule generateArg_plain_int [OF decodeIntType_int64], rule generateArg_int, simp)
  next
    case 5
    show ?thesis unfolding 5
      by (intro exI conjI, rule decodeIntType_intptr,
          rule generateArg_plain_int [OF decodeIntType_intptr], rule generateArg_int, simp)
  qed
qed

text \<open>
  C7. When the chain of bases of a resource reaches a primitive kind in \<open>n\<close> hops, the
  resource resolves to the integer type of that kind; its \<^verbatim>\<open>Kind\<close> has \<open>n + 1\<close> entries,
  the names followed from the furthest ancestor down to the nearest, then the name of the
  resource itself; its \<^verbatim>\<open>Values\<close> are the resolved values of the members of the chain,
  ancestors before descendants, each in its own order, or the single value 0 when there
  are none.
\<close>

theorem resource_chain_resolution:
  assumes "baseChain desc n res = Some rs"
  shows "\<exists>sz. decodeIntType (Base (last rs)) = Inr (sz, False)
          \<and> generateResource consts res (skip, desc)
              = Some (Inr (ResourceDesc (Name res)
                             (IntType \<lparr>TypeName = ''resource-type'', ArgDir = DirInOut,
                                        IsOptional = False\<rparr> sz False IntPlain)
                             (rev (map Base (butlast rs)) @ [Name res])
                             (if concat (map (\<lambda>r. resourceValues consts (Values r)) (rev rs)) = []
                              then [''0'']
                              else concat (map (\<lambda>r. resourceValues consts (Values r)) (rev rs))),
                           (skip, desc)))
          \<and> length (rev (map Base (butlast rs)) @ [Name res]) = n + 1"
proof -
  from baseChain_shape [OF assms]
  have len: "length rs = Suc n" and kind: "Base (last rs) \<in> set intKinds"
    by simp_all
  from generateArg_intKind [OF kind, of "[]" "''resource-type''" desc "consts" skip]
  obtain sz where sz: "decodeIntType (Base (last rs)) = Inr (sz, False)"
    and arg: "generateArg [] ''resource-type'' (Base (last rs)) ''inout'' [] desc consts True True skip
              = Some (Inr (IntType \<lparr>TypeName = ''resource-type'', ArgDir = DirInOut,
                                     IsOptional = False\<rparr> sz False IntPlain, skip, desc))"
    by blast
  have "generateResource consts res (skip, desc)
              = Some (Inr (ResourceDesc (Name res)
                             (IntType \<lparr>TypeName = ''resource-type'', ArgDir = DirInOut,
                                        IsOptional = False\<rparr> sz False IntPlain)
                             (rev (map Base (butlast rs)) @ [Name res])
                             (if concat (map (\<lambda>r. resourceValues consts (Values r)) (rev rs)) = []
                              then [''0'']
                              else concat (map (\<lambda>r. resourceValues consts (Values r)) (rev rs))),
                           (skip, desc)))"
    by (simp add: generateResource_def resourceLoop_chain [OF assms] bindO_def arg)
  with sz len show ?thesis by simp
qed

lemma sock_values:
  "resourceValues sockConsts [''SOCK_STREAM'', ''SOCK_MISSING''] = [''1'']"
  "resourceValues sockConsts [''0xffffffffffffffff''] = [''0xffffffffffffffff'']"
  by (simp_all add: sockConsts_def isIdentifier_def isIdentChar_def enumerate_eq_zip upt_rec
        less_eq_char_def showNat.simps)

theorem resource_chain_resolution_witness:
  "baseChain sockDesc 1 \<lparr>Name = ''sock'', Base = ''fd'', Values = [''SOCK_STREAM'', ''SOCK_MISSING'']\<rparr>
     = Some [\<lparr>Name = ''sock'', Base = ''fd'', Values = [''SOCK_STREAM'', ''SOCK_MISSING'']\<rparr>,
             \<lparr>Name = ''fd'', Base = ''int32'', Values = [''0xffffffffffffffff'']\<rparr>]
   \<and> generateResource sockConsts
         \<lparr>Name = ''sock'', Base = ''fd'', Values = [''SOCK_STREAM'', ''SOCK_MISSING'']\<rparr>
         ([], sockDesc)
       = Some (Inr (ResourceDesc ''sock''
                      (IntType \<lparr>TypeName = ''resource-type'', ArgDir = DirInOut, IsOptional = False\<rparr>
                         4 False IntPlain)
                      [''fd'', ''sock''] [''0xffffffffffffffff'', ''1''],
                    ([], sockDesc)))
   \<and> baseChain fdDesc 0 \<lparr>Name = ''fd'', Base = ''int32'', Values = []\<rparr>
       = Some [\<lparr>Name = ''fd'', Base = ''int32'', Values = []\<rparr>]
   \<and> generateResource noConsts \<lparr>Name = ''fd'', Base = ''int32'', Values = []\<rparr> ([], fdDesc)
       = Some (Inr (ResourceDesc ''fd''
                      (IntType \<lparr>TypeName = ''resource-type'', ArgDir = DirInOut, IsOptional = False\<rparr>
                         4 False IntPlain)
                      [''fd''] [''0''],
                    ([], fdDesc)))"
proof -
  have chain1: "baseChain sockDesc 1
        \<lparr>Name = ''sock'', Base = ''fd'', Values = [''SOCK_STREAM'', ''SOCK_MISSING'']\<rparr>
     = Some [\<lparr>Name = ''sock'', Base = ''fd'', Values = [''SOCK_STREAM'', ''SOCK_MISSING'']\<rparr>,
             \<lparr>Name = ''fd'', Base = ''int32'', Values = [''0xffffffffffffffff'']\<rparr>]"
    by (simp add: sockDesc_def intKinds_def)
  have chain0: "baseChain fdDesc 0 \<lparr>Name = ''fd'', Base = ''int32'', Values = []\<rparr>
       = Some [\<lparr>Name = ''fd'', Base = ''int32'', Values = []\<rparr>]"
    by (simp add: intKinds_def)
  from resource_chain_resolution [OF chain1, of sockConsts "[]"]
  have sock: "generateResource sockConsts
         \<lparr>Name = ''sock'', Base = ''fd'', Values = [''SOCK_STREAM'', ''SOCK_MISSING'']\<rparr>
         ([], sockDesc)
       = Some (Inr (ResourceDesc ''sock''
                      (IntType \<lparr>TypeName = ''resource-type'', ArgDir = DirInOut, IsOptional = False\<rparr>
                         4 False IntPlain)
                      [''fd'', ''sock''] [''0xffffffffffffffff'', ''1''],
                    ([], sockDesc)))"
    by (simp add: decodeIntType_int32 sock_values del: resourceValues.simps)
  from resource_chain_resolution [OF chain0, of noConsts "[]"]
  have fd: "generateResource noConsts \<lparr>Name = ''fd'', Base = ''int32'', Values = []\<rparr> ([], fdDesc)
       = Some (Inr (ResourceDesc ''fd''
                      (IntType \<lparr>TypeName = ''resource-type'', ArgDir = DirInOut, IsOptional = False\<rparr>
                         4 False IntPlain)
                      [''fd''] [''0''],
                    ([], fdDesc)))"
    by (simp add: decodeIntType_int32)
  from chain1 sock chain0 fd show ?thesis by simp
qed

subsection \<open>Arrays and structs as arguments\<close>

lemma finishArg_True_False:
  "finishArg True name typ skip desc (Inr (False, t)) = Inl (CantBeSyscallArgument name typ)"
  by (simp add: finishArg_def bindE_def)

lemma array_top_level_never:
  "generateArg parent name ''array'' dir a0 desc consts True isField skip \<noteq> Some (Inr r)"
  by (auto simp: generateArg_array Let_def finishArg_def bindE_def bind_Some_iff
        split: sum.splits prod.splits if_splits)

lemma array_top_level_refused:
  assumes "generateArg parent name ''array'' dir a0 desc consts False isField skip = Some (Inr r)"
  shows "generateArg parent name ''array'' dir a0 desc consts True isField skip
           = Some (Inl (CantBeSyscallArgument name ''array''))"
  using assms
  by (auto simp: generateArg_array Let_def finishArg_def bindE_def bind_Some_iff
        split: sum.splits prod.splits if_splits)


lemma array_success_dir:
  assumes "generateArg parent name ''array'' dir a0 desc consts isArg isField skip
             = Some (Inr r)"
  shows "\<exists>d. fmtDir dir = Inr d"
proof (cases "fmtDir dir")
  case (Inl e)
  with assms show ?thesis
    by (auto simp: generateArg_array Let_def common_def bindE_def finishArg_def
          split: if_splits sum.splits prod.splits)
next
  case (Inr d)
  then show ?thesis by blast
qed

lemma array_success_parts:
  assumes "generateArg parent name ''array'' dir a0 desc consts False isField skip
             = Some (Inr (t, skip', desc'))"
  shows "(length (snd (removeOpt a0)) = 1
          \<or> length (snd (removeOpt a0)) = 2
             \<and> (\<exists>be. parseRange (snd (removeOpt a0) ! 1) consts = Inr be))
       \<and> (snd (removeOpt a0) ! 0 = ''int8'' \<and> skip' = skip \<and> desc' = desc
          \<or> snd (removeOpt a0) ! 0 \<noteq> ''int8''
             \<and> (\<exists>ti. generateArg [] [] (snd (removeOpt a0) ! 0) dir [] desc consts False True skip
                        = Some (Inr (ti, skip', desc'))))"
  using assms
  by (auto simp: generateArg_array Let_def finishArg_Inr bindE_Inr bind_Some_iff
        split: if_splits sum.splits prod.splits)

lemma array_rename:
  assumes "generateArg parent name ''array'' dir a0 desc consts False isField skip
             = Some (Inr (t, skip', desc'))"
  shows "\<exists>t'. generateArg parent' name' ''array'' dir a0 desc consts False isField' skip
             = Some (Inr (t', skip', desc'))"
proof -
  from array_success_dir [OF assms] obtain d where d: "fmtDir dir = Inr d" ..
  from array_success_parts [OF assms]
  consider (one8) "length (snd (removeOpt a0)) = 1" "snd (removeOpt a0) ! 0 = ''int8''"
      "skip' = skip" "desc' = desc"
    | (one) ti where "length (snd (removeOpt a0)) = 1" "snd (removeOpt a0) ! 0 \<noteq> ''int8''"
      "generateArg [] [] (snd (removeOpt a0) ! 0) dir [] desc consts False True skip
         = Some (Inr (ti, skip', desc'))"
    | (two8) be where "length (snd (removeOpt a0)) = 2" "snd (removeOpt a0) ! 0 = ''int8''"
      "parseRange (snd (removeOpt a0) ! 1) consts = Inr be" "skip' = skip" "desc' = desc"
    | (two) be ti where "length (snd (removeOpt a0)) = 2" "snd (removeOpt a0) ! 0 \<noteq> ''int8''"
      "parseRange (snd (removeOpt a0) ! 1) consts = Inr be"
      "generateArg [] [] (snd (removeOpt a0) ! 0) dir [] desc consts False True skip
         = Some (Inr (ti, skip', desc'))"
    by blast
  then show ?thesis
  proof cases
    case one8
    with d show ?thesis
      by (simp add: generateArg_array Let_def common_def bindE_def finishArg_def)
  next
    case one
    with d show ?thesis
      by (simp add: generateArg_array Let_def common_def bindE_def finishArg_def)
  next
    case two8
    with d show ?thesis
      by (cases be) (simp add: generateArg_array Let_def common_def bindE_def finishArg_def)
  next
    case two
    with d show ?thesis
      by (cases be) (simp add: generateArg_array Let_def common_def bindE_def finishArg_def)
  qed
qed

lemma unnamed_not_label: "hasPrefix u ''unnamed'' \<Longrightarrow> u \<notin> set switchLabels"
  by (auto simp: hasPrefix_def switchLabels_def)

lemma generateArg_unnamed:
  assumes "hasPrefix u ''unnamed''" and "Unnamed desc u = Some (ty # ps)"
  shows "generateArg parent name u dir a0 desc consts isArg isField skip =
           Option.bind
             (generateArg [] [] ty dir ps
                (desc\<lparr>Unnamed := (Unnamed desc)(u \<mapsto> ty # optBacking ps)\<rparr>)
                consts False isField skip)
             (\<lambda>r. Some (bindE r (\<lambda>(t, skip', desc').
                finishArg isArg name u skip' desc' (Inr (False, t)))))"
  using assms by (simp add: generateArg_default unnamed_not_label)

lemma unnamed_entry_unchanged:
  "Unnamed desc u = Some (ty # ps) \<Longrightarrow> optBacking ps = ps \<Longrightarrow>
     desc\<lparr>Unnamed := (Unnamed desc)(u \<mapsto> ty # optBacking ps)\<rparr> = desc"
  by (simp add: fun_upd_idem)

lemma ptr_unnamed_array:
  assumes u: "hasPrefix u ''unnamed''" "Unnamed desc u = Some (''array'' # ps)"
    and stable: "optBacking ps = ps"
    and bare: "generateArg parent name ''array'' pdir ps desc consts False isField skip
                 = Some (Inr (t, skip', desc'))"
    and a0: "snd (removeOpt a0) = [pdir, u]"
  shows "\<exists>t'. generateArg parent' name' ''ptr'' dir a0 desc consts True isField' skip
           = Some (Inr (PtrType \<lparr>TypeName = name', ArgDir = DirIn,
                                  IsOptional = fst (removeOpt a0)\<rparr> t', skip', desc'))"
proof -
  from array_rename [OF bare, of "[]" "[]" True] obtain t' where
    t': "generateArg [] [] ''array'' pdir ps desc consts False True skip
           = Some (Inr (t', skip', desc'))"
    by blast
  have "generateArg [] [] u pdir [] desc consts False True skip = Some (Inr (t', skip', desc'))"
    using t' by (simp add: generateArg_unnamed [OF u] unnamed_entry_unchanged [OF u(2) stable]
        finishArg_def bindE_def)
  then show ?thesis
    using a0 by (simp add: generateArg_ptr common_def fmtDir_def bindE_def finishArg_def)
qed

lemma generateArg_struct:
  assumes "typ \<notin> set switchLabels" and "\<not> hasPrefix typ ''unnamed''"
    and "map_of (Structs desc) typ = Some str"
  shows "generateArg parent name typ dir a0 desc consts isArg isField skip =
           (if length (snd (removeOpt a0)) \<noteq> 0 then Some (Inl (StructHasArgs typ))
            else Some (finishArg isArg name typ skip desc
                   (Inr (False, StructsAt \<lparr>key_name = typ, key_field = name, key_dir = dir\<rparr>))))"
  using assms by (simp add: generateArg_default)

lemma int32_elem:
  "generateArg [] [] ''int32'' ''in'' [] desc consts False True skip
     = Some (Inr (IntType \<lparr>TypeName = [], ArgDir = DirIn, IsOptional = False\<rparr> 4 False IntPlain,
                  skip, desc))"
  by (simp add: generateArg_int arg_int_def decodeIntType_int32 bindE_def common_def fmtDir_def
        finishArg_def)

lemma wrap_bare_array:
  "generateArg [] ''a'' ''array'' ''in'' [''int32''] wrapDesc noConsts False False []
     = Some (Inr (ArrayType \<lparr>TypeName = ''a'', ArgDir = DirIn, IsOptional = False\<rparr>
                    (IntType \<lparr>TypeName = [], ArgDir = DirIn, IsOptional = False\<rparr> 4 False IntPlain)
                    ArrayRandLen, [], wrapDesc))"
  by (simp add: generateArg_array int32_elem common_def fmtDir_def bindE_def finishArg_def)

text \<open>
  C5. With \<^verbatim>\<open>isArg\<close> set, an \<^verbatim>\<open>array\<close> never compiles, and an array that is well formed (it
  compiles where \<^verbatim>\<open>isArg\<close> is not set) ends with the error ``can't be syscall argument''.
  The parser hands the pointee of a \<^verbatim>\<open>ptr\<close> over as a type name without parameters, so
  an array with parameters is the pointee of a \<^verbatim>\<open>ptr\<close> through an unnamed type that stands
  for it: that \<^verbatim>\<open>ptr\<close> compiles at top level whenever the array is well formed (and its
  marker \<^verbatim>\<open>opt\<close>, if any, is its last parameter). A name that reaches the struct case of
  the dispatch ends with the same error at top level when it has no parameters, and the
  \<^verbatim>\<open>ptr\<close> to it compiles, to a pointer to the instance of the struct for the empty field
  name and the direction of the pointee.
\<close>

theorem bare_array_and_struct:
  "(\<forall>r. generateArg parent name ''array'' dir a0 desc consts True isField skip \<noteq> Some (Inr r))
   \<and> ((\<exists>r. generateArg parent name ''array'' dir a0 desc consts False isField skip = Some (Inr r))
        \<longrightarrow> generateArg parent name ''array'' dir a0 desc consts True isField skip
              = Some (Inl (CantBeSyscallArgument name ''array'')))
   \<and> ((\<exists>r. generateArg parent name ''array'' dir a0 desc consts False isField skip = Some (Inr r))
        \<and> hasPrefix u ''unnamed'' \<and> Unnamed desc u = Some (''array'' # a0) \<and> optBacking a0 = a0
        \<longrightarrow> (\<exists>t skip' desc'.
               generateArg parent name ''ptr'' ''in'' [dir, u] desc consts True isField skip
                 = Some (Inr (PtrType \<lparr>TypeName = name, ArgDir = DirIn, IsOptional = False\<rparr> t,
                              skip', desc'))))
   \<and> (typ \<notin> set switchLabels \<and> \<not> hasPrefix typ ''unnamed'' \<and> map_of (Structs desc) typ = Some str
        \<and> typ \<noteq> ''opt'' \<and> dir \<in> set dirs
        \<longrightarrow> generateArg parent name typ dir [] desc consts True isField skip
              = Some (Inl (CantBeSyscallArgument name typ))
          \<and> generateArg parent name ''ptr'' ''in'' [dir, typ] desc consts True isField skip
              = Some (Inr (PtrType \<lparr>TypeName = name, ArgDir = DirIn, IsOptional = False\<rparr>
                             (StructsAt \<lparr>key_name = typ, key_field = [], key_dir = dir\<rparr>),
                           skip, desc)))"
proof -
  have never: "generateArg parent name ''array'' dir a0 desc consts True isField skip \<noteq> Some (Inr r)"
    for r by (rule array_top_level_never)
  have refused: "generateArg parent name ''array'' dir a0 desc consts True isField skip
              = Some (Inl (CantBeSyscallArgument name ''array''))"
    if "\<exists>r. generateArg parent name ''array'' dir a0 desc consts False isField skip = Some (Inr r)"
    using that array_top_level_refused by blast
  have wrapped: "\<exists>t skip' desc'.
               generateArg parent name ''ptr'' ''in'' [dir, u] desc consts True isField skip
                 = Some (Inr (PtrType \<lparr>TypeName = name, ArgDir = DirIn, IsOptional = False\<rparr> t,
                              skip', desc'))"
    if bare: "\<exists>r. generateArg parent name ''array'' dir a0 desc consts False isField skip = Some (Inr r)"
      and u: "hasPrefix u ''unnamed''" "Unnamed desc u = Some (''array'' # a0)"
      and stable: "optBacking a0 = a0"
  proof -
    from bare obtain t skip' desc' where
      "generateArg parent name ''array'' dir a0 desc consts False isField skip
         = Some (Inr (t, skip', desc'))"
      by auto
    note run = this
    from array_success_dir [OF run] have "dir \<noteq> ''opt''"
      by (auto simp: fmtDir_def)
    moreover from u(1) have "u \<noteq> ''opt''"
      by (auto simp: hasPrefix_def)
    ultimately have "removeOpt [dir, u] = (False, [dir, u])"
      by simp
    with ptr_unnamed_array [OF u stable run, of "[dir, u]" parent name "''in''" isField]
    show ?thesis
      by auto
  qed
  have struct: "generateArg parent name typ dir [] desc consts True isField skip
              = Some (Inl (CantBeSyscallArgument name typ))
          \<and> generateArg parent name ''ptr'' ''in'' [dir, typ] desc consts True isField skip
              = Some (Inr (PtrType \<lparr>TypeName = name, ArgDir = DirIn, IsOptional = False\<rparr>
                             (StructsAt \<lparr>key_name = typ, key_field = [], key_dir = dir\<rparr>),
                           skip, desc))"
    if s: "typ \<notin> set switchLabels" "\<not> hasPrefix typ ''unnamed''"
      "map_of (Structs desc) typ = Some str" and no: "typ \<noteq> ''opt''" and d: "dir \<in> set dirs"
  proof -
    from d have "dir \<noteq> ''opt''"
      by (auto simp: dirs_def)
    with no have "removeOpt [dir, typ] = (False, [dir, typ])"
      by simp
    moreover have "generateArg [] [] typ dir [] desc consts False True skip
            = Some (Inr (StructsAt \<lparr>key_name = typ, key_field = [], key_dir = dir\<rparr>, skip, desc))"
      by (simp add: generateArg_struct [OF s] finishArg_def bindE_def)
    ultimately show ?thesis
      by (simp add: generateArg_struct [OF s] finishArg_def bindE_def generateArg_ptr
            common_def fmtDir_def)
  qed
  show ?thesis
    using never refused wrapped struct by blast
qed

theorem bare_array_and_struct_witness:
  "generateArg [] ''a'' ''array'' ''in'' [''int32''] wrapDesc noConsts True False []
     = Some (Inl (CantBeSyscallArgument ''a'' ''array''))
   \<and> (\<exists>t skip' desc'.
         generateArg [] ''a'' ''ptr'' ''in'' [''in'', ''unnamed0''] wrapDesc noConsts True False []
           = Some (Inr (PtrType \<lparr>TypeName = ''a'', ArgDir = DirIn, IsOptional = False\<rparr> t,
                        skip', desc')))
   \<and> generateArg [] ''s'' ''S'' ''in'' [] wrapDesc noConsts True False []
       = Some (Inl (CantBeSyscallArgument ''s'' ''S''))
   \<and> generateArg [] ''s'' ''ptr'' ''in'' [''in'', ''S''] wrapDesc noConsts True False []
       = Some (Inr (PtrType \<lparr>TypeName = ''s'', ArgDir = DirIn, IsOptional = False\<rparr>
                      (StructsAt \<lparr>key_name = ''S'', key_field = [], key_dir = ''in''\<rparr>),
                    [], wrapDesc))"
proof -
  have bare: "\<exists>r. generateArg [] ''a'' ''array'' ''in'' [''int32''] wrapDesc noConsts False False []
                = Some (Inr r)"
    using wrap_bare_array by blast
  have u: "hasPrefix ''unnamed0'' ''unnamed''"
      "Unnamed wrapDesc ''unnamed0'' = Some (''array'' # [''int32''])" "optBacking [''int32''] = [''int32'']"
    by (simp_all add: hasPrefix_def wrapDesc_def)
  have s: "''S'' \<notin> set switchLabels" "\<not> hasPrefix ''S'' ''unnamed''"
      "map_of (Structs wrapDesc) ''S''
         = Some \<lparr>Name = ''S'', Flds = [[''x'', ''int32'']], IsUnion = False,
                  Packed = False, Varlen = False, Align = 0\<rparr>"
      "''S'' \<noteq> ''opt''" "''in'' \<in> set dirs"
    by (simp_all add: switchLabels_def hasPrefix_def wrapDesc_def dirs_def)
  from bare_array_and_struct [of "[]" "''a''" "''in''" "[''int32'']" wrapDesc noConsts False "[]"
      "''unnamed0''" "''S''"] bare u
  have arr: "generateArg [] ''a'' ''array'' ''in'' [''int32''] wrapDesc noConsts True False []
     = Some (Inl (CantBeSyscallArgument ''a'' ''array''))
   \<and> (\<exists>t skip' desc'.
         generateArg [] ''a'' ''ptr'' ''in'' [''in'', ''unnamed0''] wrapDesc noConsts True False []
           = Some (Inr (PtrType \<lparr>TypeName = ''a'', ArgDir = DirIn, IsOptional = False\<rparr> t,
                        skip', desc')))"
    by simp
  from bare_array_and_struct [of "[]" "''s''" "''in''" "[]" wrapDesc noConsts False "[]"
      "''unnamed0''" "''S''"] s
  have str: "generateArg [] ''s'' ''S'' ''in'' [] wrapDesc noConsts True False []
       = Some (Inl (CantBeSyscallArgument ''s'' ''S''))
   \<and> generateArg [] ''s'' ''ptr'' ''in'' [''in'', ''S''] wrapDesc noConsts True False []
       = Some (Inr (PtrType \<lparr>TypeName = ''s'', ArgDir = DirIn, IsOptional = False\<rparr>
                      (StructsAt \<lparr>key_name = ''S'', key_field = [], key_dir = ''in''\<rparr>),
                    [], wrapDesc))"
    by simp
  from arr str show ?thesis by simp
qed

end
